theory Spec2Isabelle
  imports Complex_Main
begin

section \<open>JavaScript numbers and database values\<close>

text \<open>
  A JavaScript \<open>number\<close> is an IEEE 754 double. A finite number is modelled by its
  value, a real, and \<open>Infinity\<close>, \<open>-Infinity\<close> and \<open>NaN\<close> are constructors of their own.
  The operators \<open>+\<close>, \<open>-\<close>, \<open>*\<close> and \<open>/\<close> compute the exact result and round it to the
  nearest double, a tie to the even significand, and to an infinity beyond the largest
  double. \<open>-0\<close> is identified with \<open>0\<close>.
\<close>

datatype jsnum = Fin real | PInf | NInf | NaN

text \<open>
  The exponent of the binade of \<open>x\<close>: the largest \<open>e\<close> from -1022 to 1023 with
  \<open>2\<^sup>e \<le> |x|\<close>, and -1022 for the subnormal numbers and 0.
\<close>

definition expo :: "real \<Rightarrow> int" where
  "expo x = Max ((\<lambda>e. if 2 powi e \<le> \<bar>x\<bar> then e else - 1022) ` {- 1022..1023})"

text \<open>The nearest integer, a tie to the even one.\<close>

definition rne :: "real \<Rightarrow> int" where
  "rne y =
     (let n = \<lfloor>y\<rfloor>; f = y - of_int n
      in if f < 1 / 2 then n else if 1 / 2 < f then n + 1 else if even n then n else n + 1)"

text \<open>
  The nearest number with a significand of 53 bits, a multiple of \<open>2 powi (e - 52)\<close> in
  the binade of exponent \<open>e\<close>; and the double that a real rounds to. A decimal literal
  of the source, such as \<open>0.05\<close>, denotes \<open>double (5 / 100)\<close>.
\<close>

definition nearest :: "real \<Rightarrow> real" where
  "nearest x = (let u = 2 powi (expo x - 52) in of_int (rne (x / u)) * u)"

definition double :: "real \<Rightarrow> jsnum" where
  "double x =
     (let y = nearest x
      in if 2 ^ 1024 \<le> \<bar>y\<bar> then (if 0 < x then PInf else NInf) else Fin y)"

instantiation jsnum :: "{plus, minus, uminus, times, inverse, ord}"
begin

fun plus_jsnum :: "jsnum \<Rightarrow> jsnum \<Rightarrow> jsnum" where
  "plus_jsnum NaN _ = NaN"
| "plus_jsnum _ NaN = NaN"
| "plus_jsnum (Fin a) (Fin b) = double (a + b)"
| "plus_jsnum PInf NInf = NaN"
| "plus_jsnum NInf PInf = NaN"
| "plus_jsnum PInf _ = PInf"
| "plus_jsnum _ PInf = PInf"
| "plus_jsnum NInf _ = NInf"
| "plus_jsnum _ NInf = NInf"

fun uminus_jsnum :: "jsnum \<Rightarrow> jsnum" where
  "uminus_jsnum (Fin a) = Fin (- a)"
| "uminus_jsnum PInf = NInf"
| "uminus_jsnum NInf = PInf"
| "uminus_jsnum NaN = NaN"

definition minus_jsnum :: "jsnum \<Rightarrow> jsnum \<Rightarrow> jsnum" where
  "minus_jsnum a b = a + (- b)"

fun times_jsnum :: "jsnum \<Rightarrow> jsnum \<Rightarrow> jsnum" where
  "times_jsnum NaN _ = NaN"
| "times_jsnum _ NaN = NaN"
| "times_jsnum (Fin a) (Fin b) = double (a * b)"
| "times_jsnum (Fin a) PInf = (if a = 0 then NaN else if 0 < a then PInf else NInf)"
| "times_jsnum (Fin a) NInf = (if a = 0 then NaN else if 0 < a then NInf else PInf)"
| "times_jsnum PInf (Fin b) = (if b = 0 then NaN else if 0 < b then PInf else NInf)"
| "times_jsnum NInf (Fin b) = (if b = 0 then NaN else if 0 < b then NInf else PInf)"
| "times_jsnum PInf PInf = PInf"
| "times_jsnum PInf NInf = NInf"
| "times_jsnum NInf PInf = NInf"
| "times_jsnum NInf NInf = PInf"

text \<open>Division by zero takes the zero as \<open>+0\<close>; the source divides by non-zero constants only.\<close>

fun divide_jsnum :: "jsnum \<Rightarrow> jsnum \<Rightarrow> jsnum" where
  "divide_jsnum NaN _ = NaN"
| "divide_jsnum _ NaN = NaN"
| "divide_jsnum (Fin a) (Fin b) =
     (if b = 0 then (if a = 0 then NaN else if 0 < a then PInf else NInf) else double (a / b))"
| "divide_jsnum (Fin a) PInf = Fin 0"
| "divide_jsnum (Fin a) NInf = Fin 0"
| "divide_jsnum PInf (Fin b) = (if 0 \<le> b then PInf else NInf)"
| "divide_jsnum NInf (Fin b) = (if 0 \<le> b then NInf else PInf)"
| "divide_jsnum PInf _ = NaN"
| "divide_jsnum NInf _ = NaN"

definition inverse_jsnum :: "jsnum \<Rightarrow> jsnum" where
  "inverse_jsnum (a::jsnum) = divide (Fin 1) a"

text \<open>The relational operators: every comparison with \<open>NaN\<close> is false.\<close>

fun less_jsnum :: "jsnum \<Rightarrow> jsnum \<Rightarrow> bool" where
  "less_jsnum NaN _ = False"
| "less_jsnum _ NaN = False"
| "less_jsnum (Fin a) (Fin b) = (a < b)"
| "less_jsnum (Fin a) PInf = True"
| "less_jsnum NInf (Fin b) = True"
| "less_jsnum NInf PInf = True"
| "less_jsnum _ _ = False"

fun less_eq_jsnum :: "jsnum \<Rightarrow> jsnum \<Rightarrow> bool" where
  "less_eq_jsnum NaN _ = False"
| "less_eq_jsnum _ NaN = False"
| "less_eq_jsnum (Fin a) (Fin b) = (a \<le> b)"
| "less_eq_jsnum (Fin a) PInf = True"
| "less_eq_jsnum NInf (Fin b) = True"
| "less_eq_jsnum NInf _ = True"
| "less_eq_jsnum PInf PInf = True"
| "less_eq_jsnum _ _ = False"

instance ..

end

text \<open>\<open>isNaN\<close>, strict equality \<open>===\<close> of two numbers, and the truthiness of a number.\<close>

definition isNaN :: "jsnum \<Rightarrow> bool" where
  "isNaN x = (x = NaN)"

definition strict_eq :: "jsnum \<Rightarrow> jsnum \<Rightarrow> bool" where
  "strict_eq a b = (a \<noteq> NaN \<and> a = b)"

definition truthy_num :: "jsnum \<Rightarrow> bool" where
  "truthy_num x = (x \<noteq> NaN \<and> x \<noteq> Fin 0)"

text \<open>\<open>a || b\<close> on two numbers.\<close>

definition or_num :: "jsnum \<Rightarrow> jsnum \<Rightarrow> jsnum" where
  "or_num a b = (if truthy_num a then a else b)"

fun Math_max :: "jsnum \<Rightarrow> jsnum \<Rightarrow> jsnum" where
  "Math_max NaN _ = NaN"
| "Math_max _ NaN = NaN"
| "Math_max a b = (if a < b then b else a)"

text \<open>\<open>Math.round\<close> gives the nearest integer, a half towards \<open>+Infinity\<close>, with no
  intermediate rounding; so do \<open>Math.ceil\<close>, \<open>Math.abs\<close> and \<open>Math.max\<close>.\<close>

fun Math_round :: "jsnum \<Rightarrow> jsnum" where
  "Math_round (Fin a) = Fin (of_int \<lfloor>a + 1 / 2\<rfloor>)"
| "Math_round x = x"

fun Math_ceil :: "jsnum \<Rightarrow> jsnum" where
  "Math_ceil (Fin a) = Fin (of_int \<lceil>a\<rceil>)"
| "Math_ceil x = x"

fun Math_abs :: "jsnum \<Rightarrow> jsnum" where
  "Math_abs (Fin a) = Fin \<bar>a\<bar>"
| "Math_abs NInf = PInf"
| "Math_abs x = x"

fun is_finite :: "jsnum \<Rightarrow> bool" where
  "is_finite (Fin a) = True"
| "is_finite _ = False"

text \<open>
  A numeric column of a row read from the configuration store is a number, \<open>null\<close>, or
  absent (\<open>undefined\<close>). Rows that hold a string in a numeric column are outside the model.
\<close>

datatype jsval = JNum jsnum | JNull | JUndefined

text \<open>\<open>Number(v)\<close>, also the coercion that the arithmetic and relational operators apply.\<close>

fun Number :: "jsval \<Rightarrow> jsnum" where
  "Number (JNum n) = n"
| "Number JNull = Fin 0"
| "Number JUndefined = NaN"

text \<open>\<open>parseFloat(v)\<close> reads the string form of its argument: \<open>"null"\<close> and \<open>"undefined"\<close>
  give \<open>NaN\<close>, and the string form of a number reads back as that number.\<close>

fun parseFloat :: "jsval \<Rightarrow> jsnum" where
  "parseFloat (JNum n) = n"
| "parseFloat _ = NaN"

text \<open>\<open>parseFloat(v?.toString() || d)\<close> with \<open>d\<close> the text of the number \<open>dflt\<close>: the
  string form of a number is never empty, so the default is taken for \<open>null\<close> and
  \<open>undefined\<close> only.\<close>

fun parseFloatOr :: "jsval \<Rightarrow> jsnum \<Rightarrow> jsnum" where
  "parseFloatOr (JNum n) dflt = n"
| "parseFloatOr _ dflt = dflt"

fun truthy :: "jsval \<Rightarrow> bool" where
  "truthy (JNum n) = truthy_num n"
| "truthy _ = False"

definition or_val :: "jsval \<Rightarrow> jsval \<Rightarrow> jsval" where
  "or_val a b = (if truthy a then a else b)"

section \<open>The fare breakdown\<close>

record details =
  actual_distance_km :: jsnum
  actual_duration_minutes :: jsnum
  base_km_included :: "jsval option"
  extra_km :: "jsnum option"
  per_km_rate :: jsval
  per_minute_rate :: "jsval option"
  surge_multiplier :: "jsnum option"
  platform_fee_flat :: "jsnum option"
  zone_detected :: "string option"
  is_inner_zone :: "bool option"
  days_calculated :: "jsnum option"
  daily_km_limit :: "jsval option"
  within_allowance :: "bool option"
  package_name :: "string option"
  total_km_travelled :: "jsnum option"
  km_allowance :: "jsnum option"
  direction :: "string option"
  minimum_fare :: "jsnum option"

text \<open>The details of a breakdown that sets none of the optional fields.\<close>

definition details0 :: "jsnum \<Rightarrow> jsnum \<Rightarrow> jsval \<Rightarrow> details" where
  "details0 km mins rate =
     \<lparr> actual_distance_km = km, actual_duration_minutes = mins, base_km_included = None,
       extra_km = None, per_km_rate = rate, per_minute_rate = None, surge_multiplier = None,
       platform_fee_flat = None, zone_detected = None, is_inner_zone = None,
       days_calculated = None, daily_km_limit = None, within_allowance = None,
       package_name = None, total_km_travelled = None, km_allowance = None,
       direction = None, minimum_fare = None \<rparr>"

record FareBreakdown =
  booking_type :: string
  vehicle_type :: string
  base_fare :: jsval
  distance_fare :: jsnum
  time_fare :: jsnum
  surge_charges :: jsnum
  deadhead_charges :: jsnum
  platform_fee :: jsnum
  gst_on_charges :: jsnum
  gst_on_platform_fee :: jsnum
  extra_km_charges :: jsnum
  driver_allowance :: jsnum
  total_fare :: jsnum
  details :: details

section \<open>The configuration store\<close>

text \<open>
  A query of the store answers with its rows (\<open>null\<close> is \<open>None\<close>), in the order the query
  asks for, and with an error flag. The store is a parameter of every operation: each
  field is the answer to one of the queries of the source, already filtered by the keys
  of the query and by \<open>is_active\<close>.
\<close>

record 'a query_result =
  qdata :: "'a list option"
  qerror :: bool

record fare_matrix_row =
  fm_base_fare :: jsval
  fm_per_km_rate :: jsval
  fm_surge_multiplier :: jsval
  fm_platform_fee :: jsval
  fm_minimum_fare :: jsval

record rental_fare_row =
  rf_package_name :: "string option"
  rf_base_fare :: jsval
  rf_km_included :: jsval
  rf_extra_km_rate :: jsval
  rf_extra_minute_rate :: jsval

record outstation_fare_row =
  of_base_fare :: jsval
  of_per_km_rate :: jsval
  of_driver_allowance_per_day :: jsval
  of_daily_km_limit :: jsval

record slab_package_row =
  slab_10km :: jsval
  slab_20km :: jsval
  slab_30km :: jsval
  slab_40km :: jsval
  slab_50km :: jsval
  slab_60km :: jsval
  slab_70km :: jsval
  slab_80km :: jsval
  slab_90km :: jsval
  slab_100km :: jsval
  slab_110km :: jsval
  slab_120km :: jsval
  slab_130km :: jsval
  slab_140km :: jsval
  slab_150km :: jsval
  sp_extra_km_rate :: jsval

record airport_fare_row =
  hosur_to_airport_fare :: jsval
  airport_to_hosur_fare :: jsval

record zone =
  zone_name :: string
  center_latitude :: jsval
  center_longitude :: jsval
  radius_km :: jsval

text \<open>
  A row of \<open>rides\<close>. \<open>ride_scheduled_time\<close> is \<open>None\<close> for \<open>null\<close> (and the empty
  string); otherwise it is the time in milliseconds that \<open>new Date(scheduled_time).getTime()\<close>
  gives, \<open>NaN\<close> for a text that is no date. \<open>ride_trip_type\<close> is \<open>None\<close> for \<open>null\<close>.
\<close>

record ride =
  ride_booking_type :: string
  ride_vehicle_type :: string
  ride_scheduled_time :: "jsnum option"
  ride_trip_type :: "string option"
  ride_selected_hours :: jsval

record store =
  rides :: "string \<Rightarrow> ride option \<times> bool"
  zones :: "zone query_result"
  fare_matrix :: "string \<Rightarrow> string \<Rightarrow> fare_matrix_row query_result"
  rental_fares :: "string \<Rightarrow> jsval \<Rightarrow> rental_fare_row query_result"
  outstation_fares :: "string \<Rightarrow> outstation_fare_row query_result"
  outstation_packages :: "string \<Rightarrow> slab_package_row query_result"
  airport_fares :: "string \<Rightarrow> airport_fare_row query_result"
  trip_completions_insert_error :: bool

text \<open>
  \<open>if (error || !rows || rows.length === 0) throw ...; row = rows[0]\<close>: the first row of
  an answer, or nothing.
\<close>

definition first_row :: "'a query_result \<Rightarrow> 'a option" where
  "first_row q =
     (if qerror q then None
      else case qdata q of None \<Rightarrow> None | Some [] \<Rightarrow> None | Some (r # rs) \<Rightarrow> Some r)"

text \<open>\<open>.single()\<close>: the row when the query matches exactly one, \<open>null\<close> otherwise.\<close>

definition single :: "'a query_result \<Rightarrow> 'a option" where
  "single q =
     (if qerror q then None
      else case qdata q of Some [r] \<Rightarrow> Some r | _ \<Rightarrow> None)"

section \<open>Rental fare\<close>

text \<open>
  A thrown \<open>Error\<close> is \<open>Inl\<close> of its message. The two \<open>if\<close> statements that set
  \<open>extraKm\<close>, \<open>extraKmCharges\<close>, \<open>extraMinutes\<close> and \<open>extraTimeCharges\<close> are the
  conditionals below; the package columns are used as they are stored, so the operators
  coerce them with \<open>Number\<close>.
\<close>

definition calculateRentalFare ::
  "store \<Rightarrow> string \<Rightarrow> jsnum \<Rightarrow> jsnum \<Rightarrow> jsval \<Rightarrow> string + FareBreakdown" where
  "calculateRentalFare st vehicleType actualDistanceKm actualDurationMinutes selectedHours =
     (case first_row (rental_fares st vehicleType selectedHours) of
        None \<Rightarrow> Inl ''Rental fare configuration not found''
      | Some rentalFare \<Rightarrow>
          let baseFare = rf_base_fare rentalFare;
              kmIncluded = rf_km_included rentalFare;
              extraKmRate = rf_extra_km_rate rentalFare;
              extraMinuteRate = or_val (rf_extra_minute_rate rentalFare) (JNum (Fin 0));
              extraKm = (if actualDistanceKm > Number kmIncluded
                         then actualDistanceKm - Number kmIncluded else Fin 0);
              extraKmCharges = (if actualDistanceKm > Number kmIncluded
                                then extraKm * Number extraKmRate else Fin 0);
              packageMinutes = Number selectedHours * Fin 60;
              extraMinutes = (if actualDurationMinutes > packageMinutes
                              then actualDurationMinutes - packageMinutes else Fin 0);
              extraTimeCharges = (if actualDurationMinutes > packageMinutes
                                  then extraMinutes * Number extraMinuteRate else Fin 0);
              withinAllowance = (strict_eq extraKmCharges (Fin 0) \<and> strict_eq extraTimeCharges (Fin 0));
              totalFareRaw = Number baseFare + extraKmCharges + extraTimeCharges;
              totalFare = Math_round totalFareRaw
          in Inr \<lparr> booking_type = ''rental'', vehicle_type = vehicleType,
                   base_fare = baseFare, distance_fare = extraKmCharges,
                   time_fare = extraTimeCharges, surge_charges = Fin 0,
                   deadhead_charges = Fin 0, platform_fee = Fin 0, gst_on_charges = Fin 0,
                   gst_on_platform_fee = Fin 0, extra_km_charges = extraKmCharges,
                   driver_allowance = Fin 0, total_fare = totalFare,
                   details = (details0 actualDistanceKm actualDurationMinutes extraKmRate)
                     \<lparr> base_km_included := Some kmIncluded, extra_km := Some extraKm,
                       per_minute_rate := Some extraMinuteRate,
                       within_allowance := Some withinAllowance,
                       package_name := rf_package_name rentalFare \<rparr> \<rparr>)"

section \<open>Great-circle distance\<close>

definition toRadians :: "real \<Rightarrow> real" where
  "toRadians degrees = degrees * (pi / 180)"

text \<open>\<open>Math.atan2(y, x)\<close> on finite arguments.\<close>

definition atan2 :: "real \<Rightarrow> real \<Rightarrow> real" where
  "atan2 y x =
     (if 0 < x then arctan (y / x)
      else if x < 0 then (if 0 \<le> y then arctan (y / x) + pi else arctan (y / x) - pi)
      else if 0 < y then pi / 2 else if y < 0 then - (pi / 2) else 0)"

text \<open>
  \<open>calculateHaversineDistance\<close> of the location tracker. The sine of an infinite or
  undefined argument is \<open>NaN\<close>, and so is the square root of a negative number, so the
  result is \<open>NaN\<close> unless the four coordinates are finite. The language leaves the
  precision of \<open>Math.sin\<close>, \<open>Math.cos\<close> and \<open>Math.atan2\<close> to the implementation: these
  functions, and the arithmetic between them, are taken exact here.
\<close>

definition calculateHaversineDistance :: "jsnum \<Rightarrow> jsnum \<Rightarrow> jsnum \<Rightarrow> jsnum \<Rightarrow> jsnum" where
  "calculateHaversineDistance lat1 lon1 lat2 lon2 =
     (case (lat1, lon1, lat2, lon2) of
        (Fin la1, Fin lo1, Fin la2, Fin lo2) \<Rightarrow>
          let R = 6371;
              dLat = toRadians (la2 - la1);
              dLon = toRadians (lo2 - lo1);
              a = sin (dLat / 2) * sin (dLat / 2) +
                  cos (toRadians la1) * cos (toRadians la2) * sin (dLon / 2) * sin (dLon / 2)
          in if a < 0 \<or> 1 - a < 0 then NaN
             else Fin (R * (2 * atan2 (sqrt a) (sqrt (1 - a))))
      | _ \<Rightarrow> NaN)"

text \<open>
  The Haversine distance of the specification on real coordinates in degrees:
  \<open>a = sin\<^sup>2(\<Delta>lat/2) + cos lat1 \<sqdot> cos lat2 \<sqdot> sin\<^sup>2(\<Delta>lon/2)\<close> and the distance is
  \<open>R \<sqdot> 2 \<sqdot> atan2(\<surd>a, \<surd>(1 - a))\<close> with \<open>R = 6371\<close> km. It is the value of
  \<open>calculateHaversineDistance\<close> on finite coordinates (lemma \<open>calculateHaversineDistance_Fin\<close>).
\<close>

definition haversineA :: "real \<Rightarrow> real \<Rightarrow> real \<Rightarrow> real \<Rightarrow> real" where
  "haversineA la1 lo1 la2 lo2 =
     (sin (toRadians (la2 - la1) / 2))\<^sup>2 +
     cos (toRadians la1) * cos (toRadians la2) * (sin (toRadians (lo2 - lo1) / 2))\<^sup>2"

definition haversineKm :: "real \<Rightarrow> real \<Rightarrow> real \<Rightarrow> real \<Rightarrow> real" where
  "haversineKm la1 lo1 la2 lo2 =
     6371 * (2 * atan2 (sqrt (haversineA la1 lo1 la2 lo2)) (sqrt (1 - haversineA la1 lo1 la2 lo2)))"

record coord =
  latitude :: jsnum
  longitude :: jsnum

text \<open>
  Modelled from the spec: \<open>calculateDistance\<close> of \<open>utils/maps\<close>, which is not among the
  sources. The specification gives it as the Haversine great-circle distance with Earth
  radius 6371 km, the formula that the location tracker implements.
\<close>

definition calculateDistance :: "coord \<Rightarrow> coord \<Rightarrow> jsnum" where
  "calculateDistance a b =
     calculateHaversineDistance (latitude a) (longitude a) (latitude b) (longitude b)"

section \<open>Trip distance from the recorded locations\<close>


datatype tracked_trip_type = Regular | Scheduled














section \<open>Deadhead charges\<close>

text \<open>\<open>toLowerCase\<close> on the letters A to Z, and \<open>includes\<close> (\<open>includesStr\<close>).\<close>

definition lowerChar :: "char \<Rightarrow> char" where
  "lowerChar c =
     (let n = (of_char c :: nat) in if 65 \<le> n \<and> n \<le> 90 then char_of (n + 32) else c)"

definition toLowerCase :: "string \<Rightarrow> string" where
  "toLowerCase s = map lowerChar s"

fun startsWith :: "string \<Rightarrow> string \<Rightarrow> bool" where
  "startsWith s [] = True"
| "startsWith [] (p # ps) = False"
| "startsWith (c # cs) (p # ps) = (c = p \<and> startsWith cs ps)"

fun includesStr :: "string \<Rightarrow> string \<Rightarrow> bool" where
  "includesStr [] sub = (sub = [])"
| "includesStr (c # cs) sub = (startsWith (c # cs) sub \<or> includesStr cs sub)"

text \<open>\<open>zones?.find(zone => zone.name.toLowerCase().includes(ring))\<close>.\<close>

definition findZone :: "string \<Rightarrow> zone list option \<Rightarrow> zone option" where
  "findZone ring zs =
     (case zs of
        None \<Rightarrow> None
      | Some l \<Rightarrow> List.find (\<lambda>z. includesStr (toLowerCase (zone_name z)) ring) l)"

definition HOSUR_BUS_STAND :: coord where
  "HOSUR_BUS_STAND = \<lparr> latitude = double 12.7401984, longitude = double 77.824 \<rparr>"

record deadhead_result =
  deadheadCharges :: jsnum
  zoneDetected :: string
  isInnerZone :: bool

definition calculateDeadheadCharges ::
  "jsnum \<Rightarrow> jsnum \<Rightarrow> jsnum \<Rightarrow> zone list option \<Rightarrow> deadhead_result" where
  "calculateDeadheadCharges dropLat dropLng perKmRate zs =
     (case (findZone ''inner ring'' zs, findZone ''outer ring'' zs) of
        (Some innerZone, Some outerZone) \<Rightarrow>
          let innerRadiusKm = parseFloatOr (radius_km innerZone) (Fin 0);
              outerRadiusKm = parseFloatOr (radius_km outerZone) (Fin 0);
              innerCenterLat = parseFloatOr (center_latitude innerZone) (Fin 0);
              innerCenterLng = parseFloatOr (center_longitude innerZone) (Fin 0);
              outerCenterLat = parseFloatOr (center_latitude outerZone) (Fin 0);
              outerCenterLng = parseFloatOr (center_longitude outerZone) (Fin 0);
              dropPoint = \<lparr> latitude = dropLat, longitude = dropLng \<rparr>;
              distanceToInnerCenter =
                calculateDistance dropPoint \<lparr> latitude = innerCenterLat, longitude = innerCenterLng \<rparr>;
              distanceToOuterCenter =
                calculateDistance dropPoint \<lparr> latitude = outerCenterLat, longitude = outerCenterLng \<rparr>
          in if distanceToInnerCenter \<le> innerRadiusKm
             then \<lparr> deadheadCharges = Fin 0, zoneDetected = zone_name innerZone,
                    isInnerZone = True \<rparr>
             else if distanceToOuterCenter > outerRadiusKm
             then \<lparr> deadheadCharges = Fin 0, zoneDetected = ''Beyond Outer Zone'',
                    isInnerZone = False \<rparr>
             else let distanceToHosurBusStand = calculateDistance dropPoint HOSUR_BUS_STAND;
                      halfDistance = distanceToHosurBusStand / Fin 2
                  in \<lparr> deadheadCharges = halfDistance * perKmRate,
                       zoneDetected = ''Between Inner and Outer Ring'', isInnerZone = False \<rparr>
      | _ \<Rightarrow> \<lparr> deadheadCharges = Fin 0, zoneDetected = ''Unknown'', isInnerZone = False \<rparr>)"

section \<open>Regular fare\<close>

text \<open>The choice of \<open>platformFee\<close> among the conversions of the stored platform fee.\<close>

definition platformFeeOf :: "jsval \<Rightarrow> jsnum" where
  "platformFeeOf rawPlatformFee =
     (let numberConversion = Number rawPlatformFee;
          parseFloatConversion = parseFloat rawPlatformFee;
          directAssignment = rawPlatformFee
      in if \<not> isNaN parseFloatConversion then parseFloatConversion
         else if \<not> isNaN numberConversion then numberConversion
         else (case directAssignment of
                 JNum n \<Rightarrow> if \<not> isNaN n then n else Fin 10
               | _ \<Rightarrow> Fin 10))"

text \<open>The computation of \<open>calculateRegularFare\<close> once the fare matrix row is found.\<close>

definition regularFareOf ::
  "fare_matrix_row \<Rightarrow> string \<Rightarrow> jsnum \<Rightarrow> jsnum \<Rightarrow> jsnum \<Rightarrow> jsnum \<Rightarrow> zone list option
     \<Rightarrow> FareBreakdown" where
  "regularFareOf fareMatrix vehicleType actualDistanceKm actualDurationMinutes dropLat dropLng zs =
     (let platformFee = platformFeeOf (fm_platform_fee fareMatrix);
          baseFare = or_num (Number (fm_base_fare fareMatrix)) (Fin 0);
          baseKmIncluded = Fin 4;
          perKmRate = or_num (Number (fm_per_km_rate fareMatrix)) (Fin 0);
          surgeMultiplier = or_num (Number (fm_surge_multiplier fareMatrix)) (Fin 1);
          extraKm = Math_max (Fin 0) (actualDistanceKm - baseKmIncluded);
          distanceFare = extraKm * perKmRate;
          deadheadResult = calculateDeadheadCharges dropLat dropLng perKmRate zs;
          deadheadCharges = or_num (deadheadCharges deadheadResult) (Fin 0);
          subtotalBeforeSurge = baseFare + distanceFare + deadheadCharges;
          surgeCharges = subtotalBeforeSurge * (surgeMultiplier - Fin 1);
          validBaseFare = (if isNaN baseFare then Fin 0 else baseFare);
          validDistanceFare = (if isNaN distanceFare then Fin 0 else distanceFare);
          validDeadheadCharges = (if isNaN deadheadCharges then Fin 0 else deadheadCharges);
          validSurgeCharges = (if isNaN surgeCharges then Fin 0 else surgeCharges);
          validPlatformFee = (if isNaN platformFee then Fin 10 else platformFee);
          chargesSubtotal =
            validBaseFare + validDistanceFare + validDeadheadCharges + validSurgeCharges;
          gstOnCharges = chargesSubtotal * double (5 / 100);
          gstOnPlatformFee = validPlatformFee * double (18 / 100);
          validGstOnCharges = (if isNaN gstOnCharges then Fin 0 else gstOnCharges);
          validGstOnPlatformFee = (if isNaN gstOnPlatformFee then Fin 0 else gstOnPlatformFee);
          totalFareRaw = validBaseFare + validDistanceFare + validDeadheadCharges +
            validSurgeCharges + validPlatformFee + validGstOnCharges + validGstOnPlatformFee;
          totalFare = Math_round totalFareRaw
      in \<lparr> booking_type = ''regular'', vehicle_type = vehicleType,
           base_fare = JNum validBaseFare, distance_fare = validDistanceFare,
           time_fare = Fin 0, surge_charges = validSurgeCharges,
           deadhead_charges = validDeadheadCharges, platform_fee = validPlatformFee,
           gst_on_charges = validGstOnCharges, gst_on_platform_fee = validGstOnPlatformFee,
           extra_km_charges = Fin 0, driver_allowance = Fin 0, total_fare = totalFare,
           details = (details0 actualDistanceKm actualDurationMinutes
                        (JNum (if isNaN perKmRate then Fin 0 else perKmRate)))
             \<lparr> base_km_included := Some (JNum baseKmIncluded), extra_km := Some extraKm,
               surge_multiplier := Some (if isNaN surgeMultiplier then Fin 1 else surgeMultiplier),
               platform_fee_flat := Some validPlatformFee,
               zone_detected := Some (zoneDetected deadheadResult),
               is_inner_zone := Some (isInnerZone deadheadResult),
               minimum_fare := Some (if isNaN (Number (fm_minimum_fare fareMatrix)) then Fin 0
                                     else Number (fm_minimum_fare fareMatrix)) \<rparr> \<rparr>)"

definition calculateRegularFare ::
  "store \<Rightarrow> string \<Rightarrow> jsnum \<Rightarrow> jsnum \<Rightarrow> jsnum \<Rightarrow> jsnum \<Rightarrow> jsnum \<Rightarrow> jsnum \<Rightarrow> zone list option
     \<Rightarrow> string + FareBreakdown" where
  "calculateRegularFare st vehicleType actualDistanceKm actualDurationMinutes
       pickupLat pickupLng dropLat dropLng zs =
     (let q = fare_matrix st ''regular'' vehicleType
      in if qerror q then Inl ''Fare configuration not found''
         else case qdata q of
                None \<Rightarrow> Inl ''Fare configuration not found for this vehicle type''
              | Some [] \<Rightarrow> Inl ''Fare configuration not found for this vehicle type''
              | Some (fareMatrix # others) \<Rightarrow>
                  Inr (regularFareOf fareMatrix vehicleType actualDistanceKm
                         actualDurationMinutes dropLat dropLng zs))"

section \<open>Airport fare\<close>

definition cityCenter :: coord where
  "cityCenter = \<lparr> latitude = double 12.7401984, longitude = double 77.824 \<rparr>"

definition calculateAirportFare ::
  "store \<Rightarrow> string \<Rightarrow> jsnum \<Rightarrow> jsnum \<Rightarrow> jsnum \<Rightarrow> jsnum \<Rightarrow> string + FareBreakdown" where
  "calculateAirportFare st vehicleType pickupLat pickupLng dropLat dropLng =
     (case first_row (airport_fares st vehicleType) of
        None \<Rightarrow> Inl ''Airport fare configuration not found''
      | Some airportConfig \<Rightarrow>
          let pickupToCenter =
                calculateDistance \<lparr> latitude = pickupLat, longitude = pickupLng \<rparr> cityCenter;
              dropToCenter =
                calculateDistance \<lparr> latitude = dropLat, longitude = dropLng \<rparr> cityCenter;
              isHosurToAirport = (pickupToCenter < dropToCenter);
              fare = (if isHosurToAirport then hosur_to_airport_fare airportConfig
                      else airport_to_hosur_fare airportConfig);
              direction = (if isHosurToAirport then ''Hosur to Airport'' else ''Airport to Hosur'')
          in Inr \<lparr> booking_type = ''airport'', vehicle_type = vehicleType,
                   base_fare = fare, distance_fare = Fin 0, time_fare = Fin 0,
                   surge_charges = Fin 0, deadhead_charges = Fin 0, platform_fee = Fin 0,
                   gst_on_charges = Fin 0, gst_on_platform_fee = Fin 0,
                   extra_km_charges = Fin 0, driver_allowance = Fin 0,
                   total_fare = Math_round (Number fare),
                   details =
                     (details0
                        (calculateDistance \<lparr> latitude = pickupLat, longitude = pickupLng \<rparr>
                           \<lparr> latitude = dropLat, longitude = dropLng \<rparr>)
                        (Fin 0) (JNum (Fin 0)))
                     \<lparr> direction := Some direction \<rparr> \<rparr>)"

section \<open>Outstation fare\<close>

text \<open>
  The wall clock: \<open>clock_start\<close> is what \<open>new Date()\<close> reads for \<open>startTime\<close> when the
  ride has no scheduled time, \<open>clock_end\<close> what it reads for \<open>endTime\<close>, both a whole
  number of milliseconds.
\<close>

record clock =
  clock_start :: int
  clock_end :: int

definition startTimeOf :: "jsnum option \<Rightarrow> clock \<Rightarrow> jsnum" where
  "startTimeOf scheduledTime clk =
     (case scheduledTime of Some t \<Rightarrow> t | None \<Rightarrow> Fin (of_int (clock_start clk)))"

definition numberOfDays :: "jsnum option \<Rightarrow> clock \<Rightarrow> jsnum" where
  "numberOfDays scheduledTime clk =
     (let startTime = startTimeOf scheduledTime clk;
          endTime = Fin (of_int (clock_end clk));
          durationHours = Math_abs (endTime - startTime) / Fin (1000 * 60 * 60)
      in Math_max (Fin 1) (Math_ceil (durationHours / Fin 24)))"

text \<open>\<open>parseFloat(fareMatrix?.platform_fee?.toString() || '10')\<close> on the single fare
  matrix row of outstation rides.\<close>

definition outstationPlatformFee :: "store \<Rightarrow> string \<Rightarrow> jsnum" where
  "outstationPlatformFee st vehicleType =
     (case single (fare_matrix st ''outstation'' vehicleType) of
        None \<Rightarrow> Fin 10
      | Some fareMatrix \<Rightarrow> parseFloatOr (fm_platform_fee fareMatrix) (Fin 10))"

definition outstationOneWay ::
  "store \<Rightarrow> string \<Rightarrow> jsnum \<Rightarrow> jsnum \<Rightarrow> jsnum \<Rightarrow> string + FareBreakdown" where
  "outstationOneWay st vehicleType actualDistanceKm actualDurationMinutes days =
     (case first_row (outstation_fares st vehicleType) of
        None \<Rightarrow> Inl ''Outstation fare configuration not found''
      | Some outstationConfig \<Rightarrow>
          let baseFare = of_base_fare outstationConfig;
              perKmRate = of_per_km_rate outstationConfig;
              kmFare = actualDistanceKm * Number perKmRate * Fin 2;
              platformFee = outstationPlatformFee st vehicleType;
              chargesSubtotal = Number baseFare + kmFare;
              gstOnCharges = chargesSubtotal * double (5 / 100);
              gstOnPlatformFee = platformFee * double (18 / 100);
              totalFareRaw = Number baseFare + kmFare + platformFee + gstOnCharges + gstOnPlatformFee;
              totalFare = Math_round totalFareRaw
          in Inr \<lparr> booking_type = ''outstation'', vehicle_type = vehicleType,
                   base_fare = baseFare, distance_fare = kmFare, time_fare = Fin 0,
                   surge_charges = Fin 0, deadhead_charges = Fin 0, platform_fee = platformFee,
                   gst_on_charges = gstOnCharges, gst_on_platform_fee = gstOnPlatformFee,
                   extra_km_charges = Fin 0, driver_allowance = Fin 0, total_fare = totalFare,
                   details = (details0 actualDistanceKm actualDurationMinutes perKmRate)
                     \<lparr> days_calculated := Some days, within_allowance := Some True,
                       total_km_travelled := Some actualDistanceKm,
                       direction := Some ''one_way'' \<rparr> \<rparr>)"

record slab =
  slab_limit :: nat
  slab_fare :: jsval

definition slabsOf :: "slab_package_row \<Rightarrow> slab list" where
  "slabsOf slabPackage =
     [ \<lparr> slab_limit = 10, slab_fare = slab_10km slabPackage \<rparr>,
       \<lparr> slab_limit = 20, slab_fare = slab_20km slabPackage \<rparr>,
       \<lparr> slab_limit = 30, slab_fare = slab_30km slabPackage \<rparr>,
       \<lparr> slab_limit = 40, slab_fare = slab_40km slabPackage \<rparr>,
       \<lparr> slab_limit = 50, slab_fare = slab_50km slabPackage \<rparr>,
       \<lparr> slab_limit = 60, slab_fare = slab_60km slabPackage \<rparr>,
       \<lparr> slab_limit = 70, slab_fare = slab_70km slabPackage \<rparr>,
       \<lparr> slab_limit = 80, slab_fare = slab_80km slabPackage \<rparr>,
       \<lparr> slab_limit = 90, slab_fare = slab_90km slabPackage \<rparr>,
       \<lparr> slab_limit = 100, slab_fare = slab_100km slabPackage \<rparr>,
       \<lparr> slab_limit = 110, slab_fare = slab_110km slabPackage \<rparr>,
       \<lparr> slab_limit = 120, slab_fare = slab_120km slabPackage \<rparr>,
       \<lparr> slab_limit = 130, slab_fare = slab_130km slabPackage \<rparr>,
       \<lparr> slab_limit = 140, slab_fare = slab_140km slabPackage \<rparr>,
       \<lparr> slab_limit = 150, slab_fare = slab_150km slabPackage \<rparr> ]"

text \<open>The loop that selects the slab: the first one whose limit covers the distance, and
  the slab selected before the loop when there is none.\<close>

fun selectSlab :: "jsnum \<Rightarrow> slab \<Rightarrow> slab list \<Rightarrow> slab" where
  "selectSlab actualDistanceKm selectedSlab [] = selectedSlab"
| "selectSlab actualDistanceKm selectedSlab (s # rest) =
     (if actualDistanceKm \<le> Fin (real (slab_limit s)) then s
      else selectSlab actualDistanceKm selectedSlab rest)"

text \<open>The decimal text of a slab limit, for \<open>`${selectedSlab.limit}km Slab`\<close>.\<close>

definition digitChar :: "nat \<Rightarrow> char" where
  "digitChar n = ''0123456789'' ! n"

function decimalText :: "nat \<Rightarrow> string" where
  "decimalText n = (if n < 10 then [digitChar n] else decimalText (n div 10) @ [digitChar (n mod 10)])"
  by pat_completeness auto
termination
  by (relation "measure (\<lambda>n. n)") auto

declare decimalText.simps [simp del]

definition outstationSlab ::
  "store \<Rightarrow> string \<Rightarrow> jsnum \<Rightarrow> jsnum \<Rightarrow> slab_package_row \<Rightarrow> FareBreakdown" where
  "outstationSlab st vehicleType actualDistanceKm actualDurationMinutes slabPackage =
     (let slabs = slabsOf slabPackage;
          selectedSlab = selectSlab actualDistanceKm (last slabs) slabs;
          slabFare = parseFloatOr (slab_fare selectedSlab) (Fin 0);
          extraKm = Math_max (Fin 0) (actualDistanceKm - Fin (real (slab_limit selectedSlab)));
          extraKmCharges = (if extraKm > Fin 0
                            then extraKm * parseFloatOr (sp_extra_km_rate slabPackage) (Fin 0)
                            else Fin 0);
          platformFee = outstationPlatformFee st vehicleType;
          chargesSubtotal = slabFare + extraKmCharges;
          gstOnCharges = chargesSubtotal * double (5 / 100);
          gstOnPlatformFee = platformFee * double (18 / 100);
          totalFareRaw = slabFare + extraKmCharges + platformFee + gstOnCharges + gstOnPlatformFee;
          totalFare = Math_round totalFareRaw
      in \<lparr> booking_type = ''outstation'', vehicle_type = vehicleType,
           base_fare = JNum slabFare, distance_fare = Fin 0, time_fare = Fin 0,
           surge_charges = Fin 0, deadhead_charges = Fin 0, platform_fee = platformFee,
           gst_on_charges = gstOnCharges, gst_on_platform_fee = gstOnPlatformFee,
           extra_km_charges = extraKmCharges, driver_allowance = Fin 0, total_fare = totalFare,
           details = (details0 actualDistanceKm actualDurationMinutes
                        (JNum (parseFloatOr (sp_extra_km_rate slabPackage) (Fin 0))))
             \<lparr> days_calculated := Some (Fin 1),
               within_allowance := Some (strict_eq extraKm (Fin 0)),
               package_name := Some (decimalText (slab_limit selectedSlab) @ ''km Slab''),
               extra_km := Some extraKm,
               base_km_included := Some (JNum (Fin (real (slab_limit selectedSlab)))),
               total_km_travelled := Some actualDistanceKm \<rparr> \<rparr>)"

definition outstationPerKm ::
  "store \<Rightarrow> string \<Rightarrow> jsnum \<Rightarrow> jsnum \<Rightarrow> jsnum \<Rightarrow> string + FareBreakdown" where
  "outstationPerKm st vehicleType actualDistanceKm actualDurationMinutes days =
     (case first_row (outstation_fares st vehicleType) of
        None \<Rightarrow> Inl ''Outstation fare configuration not found''
      | Some outstationConfig \<Rightarrow>
          let baseFare = of_base_fare outstationConfig;
              perKmRate = of_per_km_rate outstationConfig;
              driverAllowancePerDay = of_driver_allowance_per_day outstationConfig;
              dailyKmLimit = of_daily_km_limit outstationConfig;
              totalKmTravelled = actualDistanceKm;
              totalKmAllowance = Number dailyKmLimit * days;
              driverAllowance = days * Number driverAllowancePerDay;
              withinAllowance = (totalKmTravelled \<le> totalKmAllowance);
              kmFare = (if withinAllowance then Number dailyKmLimit * days * Number perKmRate
                        else totalKmTravelled * Number perKmRate);
              platformFee = outstationPlatformFee st vehicleType;
              chargesSubtotal = Number baseFare + kmFare + driverAllowance;
              gstOnCharges = chargesSubtotal * double (5 / 100);
              gstOnPlatformFee = platformFee * double (18 / 100);
              totalFareRaw = Number baseFare + kmFare + driverAllowance + platformFee +
                gstOnCharges + gstOnPlatformFee;
              totalFare = Math_round totalFareRaw
          in Inr \<lparr> booking_type = ''outstation'', vehicle_type = vehicleType,
                   base_fare = baseFare, distance_fare = kmFare, time_fare = Fin 0,
                   surge_charges = Fin 0, deadhead_charges = Fin 0, platform_fee = platformFee,
                   gst_on_charges = gstOnCharges, gst_on_platform_fee = gstOnPlatformFee,
                   extra_km_charges = Fin 0, driver_allowance = driverAllowance,
                   total_fare = totalFare,
                   details = (details0 actualDistanceKm actualDurationMinutes perKmRate)
                     \<lparr> days_calculated := Some days, daily_km_limit := Some dailyKmLimit,
                       within_allowance := Some withinAllowance,
                       total_km_travelled := Some totalKmTravelled,
                       km_allowance := Some totalKmAllowance \<rparr> \<rparr>)"

text \<open>
  \<open>calculateOutstationFare\<close>. Its log line prints \<open>startTime.toISOString()\<close>, which throws
  a \<open>RangeError\<close> (message \<open>Invalid time value\<close>) when the scheduled time is no date.
\<close>

definition calculateOutstationFare ::
  "store \<Rightarrow> clock \<Rightarrow> string \<Rightarrow> jsnum \<Rightarrow> jsnum \<Rightarrow> jsnum option \<Rightarrow> string
     \<Rightarrow> string + FareBreakdown" where
  "calculateOutstationFare st clk vehicleType actualDistanceKm actualDurationMinutes
       scheduledTime tripType =
     (let days = numberOfDays scheduledTime clk
      in if \<not> is_finite (startTimeOf scheduledTime clk) then Inl ''Invalid time value''
         else if tripType = ''one_way''
         then outstationOneWay st vehicleType actualDistanceKm actualDurationMinutes days
         else
           let isSameDayTrip = strict_eq days (Fin 1);
               useSlab = (isSameDayTrip \<and> actualDistanceKm \<le> Fin 150)
           in case (if useSlab then first_row (outstation_packages st vehicleType) else None) of
                Some slabPackage \<Rightarrow>
                  Inr (outstationSlab st vehicleType actualDistanceKm actualDurationMinutes
                         slabPackage)
              | None \<Rightarrow>
                  outstationPerKm st vehicleType actualDistanceKm actualDurationMinutes days)"

section \<open>The fare of a completed trip\<close>

text \<open>
  \<open>calculateAndStoreTripFare\<close>, the \<open>computeFare\<close> of the specification: it reads the
  ride and the zones, prices the ride by its booking type and stores the breakdown. An
  error thrown on the way is caught and returned as its message. The update of the ride
  with the final fare does not change the result and is not modelled.
\<close>

definition calculateAndStoreTripFare ::
  "store \<Rightarrow> clock \<Rightarrow> string \<Rightarrow> jsnum \<Rightarrow> jsnum \<Rightarrow> jsnum \<Rightarrow> jsnum \<Rightarrow> jsnum \<Rightarrow> jsnum
     \<Rightarrow> string + FareBreakdown" where
  "calculateAndStoreTripFare st clk rideId actualDistanceKm actualDurationMinutes
       pickupLat pickupLng dropLat dropLng =
     (case rides st rideId of
        (None, rideError) \<Rightarrow> Inl ''Ride not found''
      | (Some ride, rideError) \<Rightarrow>
          if rideError then Inl ''Ride not found''
          else if qerror (zones st) then Inl ''Failed to fetch zone configuration''
          else
            let zs = qdata (zones st);
                bookingType = ride_booking_type ride;
                priced =
                  (if bookingType = ''regular''
                   then calculateRegularFare st (ride_vehicle_type ride) actualDistanceKm
                          actualDurationMinutes pickupLat pickupLng dropLat dropLng zs
                   else if bookingType = ''rental''
                   then calculateRentalFare st (ride_vehicle_type ride) actualDistanceKm
                          actualDurationMinutes
                          (or_val (ride_selected_hours ride) (JNum (Fin 4)))
                   else if bookingType = ''outstation''
                   then calculateOutstationFare st clk (ride_vehicle_type ride) actualDistanceKm
                          actualDurationMinutes (ride_scheduled_time ride)
                          (case ride_trip_type ride of
                             None \<Rightarrow> ''round_trip''
                           | Some t \<Rightarrow> if t = [] then ''round_trip'' else t)
                   else if bookingType = ''airport''
                   then calculateAirportFare st (ride_vehicle_type ride)
                          pickupLat pickupLng dropLat dropLng
                   else Inl ''Invalid booking type'')
            in case priced of
                 Inl e \<Rightarrow> Inl e
               | Inr fareBreakdown \<Rightarrow>
                   if trip_completions_insert_error st
                   then Inl ''Failed to store trip completion''
                   else Inr fareBreakdown)"

section \<open>Finite, non-negative amounts\<close>

text \<open>
  The amounts that the specification allows in a breakdown are the finite, non-negative
  numbers. A stored figure, a distance or a duration is plausible when it is such a number
  of at most \<open>2\<^sup>4\<^sup>0\<close>, and a time when its magnitude is at most \<open>2\<^sup>5\<^sup>0\<close> milliseconds: on
  plausible inputs no operation of the fare computation overflows.
\<close>

fun nonneg :: "jsnum \<Rightarrow> bool" where
  "nonneg (Fin x) = (0 \<le> x)"
| "nonneg _ = False"

fun nonnegVal :: "jsval \<Rightarrow> bool" where
  "nonnegVal (JNum n) = nonneg n"
| "nonnegVal _ = False"

fun amount :: "nat \<Rightarrow> jsnum \<Rightarrow> bool" where
  "amount k (Fin x) = (0 \<le> x \<and> x \<le> 2 ^ k)"
| "amount k _ = False"

fun magnitude :: "nat \<Rightarrow> jsnum \<Rightarrow> bool" where
  "magnitude k (Fin x) = (\<bar>x\<bar> \<le> 2 ^ k)"
| "magnitude k _ = False"

fun plausible :: "jsval \<Rightarrow> bool" where
  "plausible (JNum n) = amount 40 n"
| "plausible _ = False"

fun atLeastOne :: "jsval \<Rightarrow> bool" where
  "atLeastOne (JNum (Fin x)) = (1 \<le> x \<and> x \<le> 2 ^ 40)"
| "atLeastOne _ = False"

definition monetaryOk :: "FareBreakdown \<Rightarrow> bool" where
  "monetaryOk fb =
     (nonnegVal (base_fare fb) \<and> nonneg (distance_fare fb) \<and> nonneg (time_fare fb) \<and>
      nonneg (surge_charges fb) \<and> nonneg (deadhead_charges fb) \<and> nonneg (platform_fee fb) \<and>
      nonneg (gst_on_charges fb) \<and> nonneg (gst_on_platform_fee fb) \<and>
      nonneg (extra_km_charges fb) \<and> nonneg (driver_allowance fb) \<and> nonneg (total_fare fb))"

definition matrixOk :: "fare_matrix_row \<Rightarrow> bool" where
  "matrixOk fm =
     (plausible (fm_base_fare fm) \<and> plausible (fm_per_km_rate fm) \<and>
      atLeastOne (fm_surge_multiplier fm) \<and> plausible (fm_platform_fee fm))"

definition packageOk :: "rental_fare_row \<Rightarrow> bool" where
  "packageOk pkg =
     (plausible (rf_base_fare pkg) \<and> plausible (rf_km_included pkg) \<and>
      plausible (rf_extra_km_rate pkg) \<and> plausible (rf_extra_minute_rate pkg))"

definition outstationOk :: "outstation_fare_row \<Rightarrow> bool" where
  "outstationOk cfg =
     (plausible (of_base_fare cfg) \<and> plausible (of_per_km_rate cfg) \<and>
      plausible (of_driver_allowance_per_day cfg) \<and> plausible (of_daily_km_limit cfg))"

definition slabsOk :: "slab_package_row \<Rightarrow> bool" where
  "slabsOk slabPackage =
     (list_all (\<lambda>s. plausible (slab_fare s)) (slabsOf slabPackage) \<and>
      plausible (sp_extra_km_rate slabPackage))"

definition airportOk :: "airport_fare_row \<Rightarrow> bool" where
  "airportOk cfg =
     (plausible (hosur_to_airport_fare cfg) \<and> plausible (airport_to_hosur_fare cfg))"

fun timeOk :: "jsnum option \<Rightarrow> bool" where
  "timeOk (Some (Fin s)) = (\<bar>s\<bar> \<le> 2 ^ 50)"
| "timeOk _ = True"

definition rideOk :: "ride \<Rightarrow> bool" where
  "rideOk r =
     (magnitude 40 (Number (or_val (ride_selected_hours r) (JNum (Fin 4)))) \<and>
      timeOk (ride_scheduled_time r))"

definition clockOk :: "clock \<Rightarrow> bool" where
  "clockOk clk = (\<bar>clock_start clk\<bar> \<le> 2 ^ 50 \<and> \<bar>clock_end clk\<bar> \<le> 2 ^ 50)"

definition answerRows :: "'a query_result \<Rightarrow> 'a list" where
  "answerRows q = (case qdata q of None \<Rightarrow> [] | Some l \<Rightarrow> l)"

definition storeOk :: "store \<Rightarrow> bool" where
  "storeOk st =
     ((\<forall>rideId r. fst (rides st rideId) = Some r \<longrightarrow> rideOk r) \<and>
      (\<forall>bookingType vehicleType.
         list_all matrixOk (answerRows (fare_matrix st bookingType vehicleType))) \<and>
      (\<forall>vehicleType hours. list_all packageOk (answerRows (rental_fares st vehicleType hours))) \<and>
      (\<forall>vehicleType. list_all outstationOk (answerRows (outstation_fares st vehicleType))) \<and>
      (\<forall>vehicleType. list_all slabsOk (answerRows (outstation_packages st vehicleType))) \<and>
      (\<forall>vehicleType. list_all airportOk (answerRows (airport_fares st vehicleType))))"

section \<open>A configuration for the examples\<close>

definition rows :: "'a list \<Rightarrow> 'a query_result" where
  "rows l = \<lparr> qdata = Some l, qerror = False \<rparr>"

definition num :: "real \<Rightarrow> jsval" where
  "num x = JNum (Fin x)"

text \<open>The doubles that the source writes 12.7401984 and 77.824.\<close>

definition centerLat :: real where
  "centerLat = nearest 12.7401984"

definition centerLng :: real where
  "centerLng = nearest 77.824"

definition innerRing :: zone where
  "innerRing = \<lparr> zone_name = ''Hosur Inner Ring'', center_latitude = num centerLat,
     center_longitude = num centerLng, radius_km = num 5 \<rparr>"

definition outerRing :: zone where
  "outerRing = \<lparr> zone_name = ''Hosur Outer Ring'', center_latitude = num centerLat,
     center_longitude = num centerLng, radius_km = num 15 \<rparr>"

definition exampleZones :: "zone list" where
  "exampleZones = [innerRing, outerRing]"

definition exampleSlabs :: slab_package_row where
  "exampleSlabs =
     \<lparr> slab_10km = num 300, slab_20km = num 500, slab_30km = num 700, slab_40km = num 900,
       slab_50km = num 1100, slab_60km = num 1300, slab_70km = num 1500, slab_80km = num 1700,
       slab_90km = num 1900, slab_100km = num 2100, slab_110km = num 2300,
       slab_120km = num 2500, slab_130km = num 2700, slab_140km = num 2900,
       slab_150km = num 3100, sp_extra_km_rate = num 14 \<rparr>"

definition exampleRide :: "string \<Rightarrow> ride option \<times> bool" where
  "exampleRide rideId =
     (if rideId \<in> {''regular'', ''rental'', ''outstation'', ''airport''}
      then (Some \<lparr> ride_booking_type = rideId, ride_vehicle_type = ''sedan'',
                    ride_scheduled_time = Some (Fin 0), ride_trip_type = Some ''round_trip'',
                    ride_selected_hours = num 4 \<rparr>, False)
      else (None, True))"

definition examplePackage :: rental_fare_row where
  "examplePackage =
     \<lparr> rf_package_name = Some ''4 Hours / 40 km'', rf_base_fare = num 800,
       rf_km_included = num 40, rf_extra_km_rate = num 15, rf_extra_minute_rate = num 2 \<rparr>"

definition exampleOutstation :: outstation_fare_row where
  "exampleOutstation =
     \<lparr> of_base_fare = num 100, of_per_km_rate = num 10,
       of_driver_allowance_per_day = num 300, of_daily_km_limit = num 250 \<rparr>"

definition exampleMatrix :: fare_matrix_row where
  "exampleMatrix =
     \<lparr> fm_base_fare = num 50, fm_per_km_rate = num 12, fm_surge_multiplier = num (3 / 2),
       fm_platform_fee = num 10, fm_minimum_fare = num 50 \<rparr>"

definition plainMatrix :: fare_matrix_row where
  "plainMatrix =
     \<lparr> fm_base_fare = num 50, fm_per_km_rate = num 10, fm_surge_multiplier = num 1,
       fm_platform_fee = num 10, fm_minimum_fare = num 50 \<rparr>"

definition exampleAirport :: airport_fare_row where
  "exampleAirport = \<lparr> hosur_to_airport_fare = num 1500, airport_to_hosur_fare = num 1400 \<rparr>"

definition exampleStore :: store where
  "exampleStore =
     \<lparr> rides = exampleRide,
       zones = rows exampleZones,
       fare_matrix = (\<lambda>bookingType vehicleType.
         if bookingType = ''regular''
         then rows [exampleMatrix]
         else rows [ \<lparr> fm_base_fare = num 0, fm_per_km_rate = num 0,
                       fm_surge_multiplier = num 1, fm_platform_fee = num 20,
                       fm_minimum_fare = num 0 \<rparr> ]),
       rental_fares = (\<lambda>vehicleType hours.
         if hours = num 4
         then rows [examplePackage]
         else rows []),
       outstation_fares = (\<lambda>vehicleType.
         rows [exampleOutstation]),
       outstation_packages = (\<lambda>vehicleType. rows [exampleSlabs]),
       airport_fares = (\<lambda>vehicleType.
         rows [exampleAirport]),
       trip_completions_insert_error = False \<rparr>"

text \<open>The store of the examples with a base fare of -100 for regular rides, and with a
  rental package whose base fare is \<open>null\<close>.\<close>

definition negativeFareStore :: store where
  "negativeFareStore =
     exampleStore \<lparr> fare_matrix :=
       (\<lambda>bookingType vehicleType. rows [exampleMatrix \<lparr> fm_base_fare := num (- 100) \<rparr>]) \<rparr>"

definition nullFareStore :: store where
  "nullFareStore =
     exampleStore \<lparr> rental_fares :=
       (\<lambda>vehicleType hours. rows [examplePackage \<lparr> rf_base_fare := JNull \<rparr>]) \<rparr>"

text \<open>The store of the examples with a fare matrix row whose columns are all absent.\<close>

definition emptyMatrix :: fare_matrix_row where
  "emptyMatrix =
     \<lparr> fm_base_fare = JUndefined, fm_per_km_rate = JUndefined,
       fm_surge_multiplier = JUndefined, fm_platform_fee = JUndefined,
       fm_minimum_fare = JUndefined \<rparr>"

definition emptyMatrixStore :: store where
  "emptyMatrixStore =
     exampleStore \<lparr> fare_matrix := (\<lambda>bookingType vehicleType. rows [emptyMatrix]) \<rparr>"

definition plainStore :: store where
  "plainStore = exampleStore \<lparr> fare_matrix := (\<lambda>bookingType vehicleType. rows [plainMatrix]) \<rparr>"

definition noMatrixStore :: store where
  "noMatrixStore = exampleStore \<lparr> fare_matrix := (\<lambda>bookingType vehicleType. rows []) \<rparr>"

definition noSlabStore :: store where
  "noSlabStore = exampleStore \<lparr> outstation_packages := (\<lambda>vehicleType. rows []) \<rparr>"

definition oneHourClock :: clock where
  "oneHourClock = \<lparr> clock_start = 0, clock_end = 3600000 \<rparr>"

definition twoHourClock :: clock where
  "twoHourClock = \<lparr> clock_start = 0, clock_end = 7200000 \<rparr>"

definition twoDayClock :: clock where
  "twoDayClock = \<lparr> clock_start = 0, clock_end = 90000000 \<rparr>"




section \<open>Rounding to a double\<close>

lemma powi2_le: "a \<le> b \<Longrightarrow> (2::real) powi a \<le> 2 powi b"
  by (rule power_int_increasing) simp_all

lemma powi2_less: "a < b \<Longrightarrow> (2::real) powi a < 2 powi b"
  by (rule power_int_strict_increasing) simp_all

lemma powi2_less_D: "(2::real) powi a < 2 powi b \<Longrightarrow> a < b"
  using powi2_le [of b a] by (cases "a < b") simp_all

lemma powi2_pos [simp]: "0 < (2::real) powi a"
  by (simp add: power_int_def)

lemma expo_in:
  "expo x \<in> (\<lambda>e. if 2 powi e \<le> \<bar>x\<bar> then e else - 1022) ` {- 1022..1023}"
  unfolding expo_def
proof (rule Max_in)
  show "finite ((\<lambda>e. if 2 powi e \<le> \<bar>x\<bar> then e else - 1022) ` {- 1022..1023})"
    by (rule finite_imageI) simp
  have "(- 1022::int) \<in> {- 1022..1023}" by simp
  then show "(\<lambda>e. if 2 powi e \<le> \<bar>x\<bar> then e else - 1022) ` {- 1022..1023} \<noteq> {}"
    by blast
qed

lemma expo_range: "- 1022 \<le> expo x \<and> expo x \<le> 1023"
  using expo_in [of x] by (auto split: if_splits)

lemma expo_ge: "- 1022 \<le> e \<Longrightarrow> e \<le> 1023 \<Longrightarrow> 2 powi e \<le> \<bar>x\<bar> \<Longrightarrow> e \<le> expo x"
  unfolding expo_def by (rule Max_ge) (auto simp add: image_iff intro!: bexI [of _ e])

lemma expo_lower: "2 powi (- 1022) \<le> \<bar>x\<bar> \<Longrightarrow> 2 powi (expo x) \<le> \<bar>x\<bar>"
  using expo_in [of x] by (auto split: if_splits)

lemma expo_upper:
  assumes "\<bar>x\<bar> < 2 powi 1024"
  shows "\<bar>x\<bar> < 2 powi (expo x + 1)"
proof (rule ccontr)
  assume "\<not> \<bar>x\<bar> < 2 powi (expo x + 1)"
  then have le: "2 powi (expo x + 1) \<le> \<bar>x\<bar>" by simp
  have "expo x \<noteq> 1023" using le assms by auto
  then have "expo x + 1 \<le> 1023" "- 1022 \<le> expo x + 1" using expo_range [of x] by simp_all
  then have "expo x + 1 \<le> expo x" using le by (intro expo_ge)
  then show False by simp
qed

lemma expo_eqI:
  assumes "2 powi e \<le> \<bar>x\<bar>" and "\<bar>x\<bar> < 2 powi (e + 1)" and "- 1022 \<le> e" and "e \<le> 1023"
  shows "expo x = e"
proof (rule antisym)
  show "e \<le> expo x" using assms by (intro expo_ge)
  have "2 powi (- 1022) \<le> (2::real) powi e"
    using assms(3) by (intro power_int_increasing) simp_all
  then have "2 powi (expo x) \<le> \<bar>x\<bar>" using assms(1) by (intro expo_lower) simp
  then have "(2::real) powi (expo x) < 2 powi (e + 1)" using assms(2) by simp
  then have "expo x < e + 1" by (rule powi2_less_D)
  then show "expo x \<le> e" by simp
qed

lemma expo_subnormal:
  assumes "\<bar>x\<bar> < 2 powi (- 1022)"
  shows "expo x = - 1022"
proof -
  have "\<not> 2 powi e \<le> \<bar>x\<bar>" if "- 1022 \<le> e" for e :: int
  proof -
    have "(2::real) powi (- 1022) \<le> 2 powi e"
      using that by (intro power_int_increasing) simp_all
    then show ?thesis using assms by simp
  qed
  then show ?thesis using expo_in [of x] by (auto split: if_splits)
qed

lemma expo_uminus [simp]: "expo (- x) = expo x"
  by (simp add: expo_def)

lemma rne_bounds: "real_of_int (rne y) - 1 / 2 \<le> y \<and> y \<le> real_of_int (rne y) + 1 / 2"
  unfolding rne_def Let_def by (auto simp add: not_less) linarith+

lemma rne_mono: "x \<le> y \<Longrightarrow> rne x \<le> rne y"
proof (rule ccontr)
  assume le: "x \<le> y" and "\<not> rne x \<le> rne y"
  then have gt: "rne y + 1 \<le> rne x" by simp
  then have "real_of_int (rne y) + 1 \<le> real_of_int (rne x)" by linarith
  then have "x = y" "y = real_of_int (rne y) + 1 / 2" "real_of_int (rne x) = real_of_int (rne y) + 1"
    using rne_bounds [of x] rne_bounds [of y] le by linarith+
  then show False using gt by simp
qed

lemma rne_of_int [simp]: "rne (of_int n) = n"
  by (simp add: rne_def)


lemma powi2_add: "(2::real) powi a * 2 powi b = 2 powi (a + b)"
  by (simp add: power_int_add)

lemma rne_uminus: "rne (- y) = - rne y"
proof (cases "y \<in> \<int>")
  case True
  then obtain n where "y = of_int n" by (auto elim: Ints_cases)
  then show ?thesis by (simp flip: of_int_minus)
next
  case False
  then have "of_int \<lfloor>y\<rfloor> \<noteq> y" by (metis Ints_of_int)
  then have lt: "of_int \<lfloor>y\<rfloor> < y" using of_int_floor_le [of y] by linarith
  have fl: "\<lfloor>- y\<rfloor> = - \<lfloor>y\<rfloor> - 1"
  proof (rule floor_unique)
    show "real_of_int (- \<lfloor>y\<rfloor> - 1) \<le> - y" using real_of_int_floor_add_one_ge [of y] by simp linarith
    show "- y < real_of_int (- \<lfloor>y\<rfloor> - 1) + 1" using lt by simp
  qed
  show ?thesis
    unfolding rne_def Let_def fl using lt
    by (simp add: algebra_simps)
qed

lemma expo_mono: "\<bar>x\<bar> \<le> \<bar>y\<bar> \<Longrightarrow> expo x \<le> expo y"
proof (cases "\<bar>x\<bar> < 2 powi (- 1022)")
  case True
  show ?thesis using expo_subnormal [OF True] expo_range [of y] by simp
next
  case False
  assume le: "\<bar>x\<bar> \<le> \<bar>y\<bar>"
  have "2 powi (expo x) \<le> \<bar>x\<bar>" using False by (intro expo_lower) (simp only: not_less)
  then have "2 powi (expo x) \<le> \<bar>y\<bar>" using le by simp
  then show ?thesis using expo_range [of x] by (intro expo_ge [of "expo x"]) simp_all
qed

lemma nearest_uminus: "nearest (- x) = - nearest x"
  by (simp add: nearest_def Let_def rne_uminus)

lemma rne_0 [simp]: "rne 0 = 0"
  by (simp add: rne_def)

lemma nearest_0 [simp]: "nearest 0 = 0"
  by (simp add: nearest_def)

lemma nearest_exact:
  assumes "x = of_int m * 2 powi j" and "\<bar>m\<bar> < 2 ^ 53" and "- 1074 \<le> j"
  shows "nearest x = x"
proof -
  define e where "e = expo x"
  have k: "0 \<le> j - e + 52"
  proof (cases "\<bar>x\<bar> < 2 powi (- 1022)")
    case True
    then have "e = - 1022" unfolding e_def by (rule expo_subnormal)
    then show ?thesis using assms(3) by simp
  next
    case False
    then have "2 powi e \<le> \<bar>x\<bar>" unfolding e_def by (intro expo_lower) (simp only: not_less)
    also have "\<bar>x\<bar> = of_int \<bar>m\<bar> * 2 powi j"
      by (simp add: assms(1) abs_mult)
    also have "\<dots> < 2 ^ 53 * 2 powi j"
    proof -
      have "real_of_int \<bar>m\<bar> < real_of_int (2 ^ 53)" using assms(2) by (simp only: of_int_less_iff)
      then show ?thesis by simp
    qed
    also have "\<dots> = 2 powi (53 + j)" by (simp flip: powi2_add)
    finally have "e < 53 + j" by (rule powi2_less_D)
    then show ?thesis by simp
  qed
  have "x / 2 powi (e - 52) = of_int m * (2 powi j * 2 powi (52 - e))"
    by (simp add: assms(1) power_int_diff field_simps)
  also have "\<dots> = of_int m * 2 powi (j - e + 52)"
    by (simp add: powi2_add algebra_simps)
  also have "\<dots> = of_int (m * 2 ^ nat (j - e + 52))"
    using k by (simp add: power_int_def)
  finally have q: "x / 2 powi (e - 52) = of_int (m * 2 ^ nat (j - e + 52))" .
  show ?thesis
    unfolding nearest_def Let_def e_def [symmetric] q rne_of_int
    unfolding q [symmetric] by simp
qed

lemma nearest_of_int: "\<bar>m\<bar> < 2 ^ 53 \<Longrightarrow> nearest (of_int m) = of_int m"
  using nearest_exact [of "of_int m" m 0] by simp

lemma nearest_powi: "- 1074 \<le> j \<Longrightarrow> nearest (2 powi j) = 2 powi j"
  using nearest_exact [of "2 powi j" 1 j] by simp

lemma nearest_nonneg_mono:
  assumes "0 \<le> x" and "x \<le> y"
  shows "nearest x \<le> nearest y"
proof (cases "expo x = expo y")
  case True
  have "x / 2 powi (expo y - 52) \<le> y / 2 powi (expo y - 52)"
    using assms(2) by (simp add: divide_right_mono)
  then have "rne (x / 2 powi (expo y - 52)) \<le> rne (y / 2 powi (expo y - 52))"
    by (rule rne_mono)
  then have "real_of_int (rne (x / 2 powi (expo y - 52))) \<le> real_of_int (rne (y / 2 powi (expo y - 52)))"
    by simp
  then show ?thesis
    unfolding nearest_def Let_def True by (simp add: mult_right_mono)
next
  case False
  have "expo x \<le> expo y" using assms by (intro expo_mono) simp
  then have lt: "expo x < expo y" using False by simp
  have ylo: "2 powi (expo y) \<le> y"
    using expo_in [of y] lt expo_range [of x] assms by (auto split: if_splits)
  have xup: "x < 2 powi (expo x + 1)"
  proof (rule ccontr)
    assume "\<not> x < 2 powi (expo x + 1)"
    then have "2 powi (expo x + 1) \<le> \<bar>x\<bar>" using assms(1) by simp
    then have "expo x + 1 \<le> expo x"
      using lt expo_range [of x] expo_range [of y] by (intro expo_ge) simp_all
    then show False by simp
  qed
  have a: "nearest x \<le> 2 powi (expo x + 1)"
  proof -
    have "x / 2 powi (expo x - 52) \<le> 2 powi (expo x + 1) / 2 powi (expo x - 52)"
      using xup by (simp add: divide_right_mono)
    also have "\<dots> = 2 powi 53" by (simp add: power_int_diff [symmetric])
    also have "\<dots> = real_of_int (2 ^ 53)" by simp
    finally have "rne (x / 2 powi (expo x - 52)) \<le> rne (real_of_int (2 ^ 53))"
      by (rule rne_mono)
    then have "rne (x / 2 powi (expo x - 52)) \<le> 2 ^ 53" by (simp only: rne_of_int)
    then have "real_of_int (rne (x / 2 powi (expo x - 52))) \<le> real_of_int (2 ^ 53)"
      by (simp only: of_int_le_iff)
    then have "real_of_int (rne (x / 2 powi (expo x - 52))) * 2 powi (expo x - 52) \<le>
        real_of_int (2 ^ 53) * 2 powi (expo x - 52)"
      by (rule mult_right_mono) simp
    also have "real_of_int (2 ^ 53) * 2 powi (expo x - 52) = 2 powi 53 * 2 powi (expo x - 52)" by simp
    also have "\<dots> = 2 powi (expo x + 1)" by (simp only: powi2_add) (simp add: add.commute)
    finally show ?thesis by (simp only: nearest_def Let_def)
  qed
  have b: "2 powi (expo y) \<le> nearest y"
  proof -
    have "2 powi (expo y) / 2 powi (expo y - 52) \<le> y / 2 powi (expo y - 52)"
      using ylo by (simp add: divide_right_mono)
    moreover have "2 powi (expo y) / 2 powi (expo y - 52) = (2::real) powi 52"
      by (simp add: power_int_diff [symmetric])
    moreover have "(2::real) powi 52 = real_of_int (2 ^ 52)" by simp
    ultimately have "rne (real_of_int (2 ^ 52)) \<le> rne (y / 2 powi (expo y - 52))"
      by (intro rne_mono) simp
    then have "2 ^ 52 \<le> rne (y / 2 powi (expo y - 52))" by (simp only: rne_of_int)
    then have "real_of_int (2 ^ 52) \<le> real_of_int (rne (y / 2 powi (expo y - 52)))"
      by (simp only: of_int_le_iff)
    then have m: "real_of_int (2 ^ 52) * 2 powi (expo y - 52) \<le>
        real_of_int (rne (y / 2 powi (expo y - 52))) * 2 powi (expo y - 52)"
      by (rule mult_right_mono) simp
    have "(2::real) powi (expo y) = 2 powi 52 * 2 powi (expo y - 52)" by (simp only: powi2_add) simp
    also have "\<dots> = real_of_int (2 ^ 52) * 2 powi (expo y - 52)" by simp
    also note m
    finally show ?thesis by (simp only: nearest_def Let_def)
  qed
  have "(2::real) powi (expo x + 1) \<le> 2 powi (expo y)" using lt by (intro powi2_le) simp
  then show ?thesis using a b by linarith
qed

lemma nearest_nonneg: "0 \<le> x \<Longrightarrow> 0 \<le> nearest x"
  using nearest_nonneg_mono [of 0 x] by simp

lemma nearest_mono:
  assumes "x \<le> y"
  shows "nearest x \<le> nearest y"
proof -
  consider "0 \<le> x" | "y \<le> 0" | "x < 0" "0 < y" by linarith
  then show ?thesis
  proof cases
    case 1
    then show ?thesis using assms by (rule nearest_nonneg_mono)
  next
    case 2
    then have "nearest (- y) \<le> nearest (- x)" using assms by (intro nearest_nonneg_mono) simp_all
    then show ?thesis by (simp add: nearest_uminus)
  next
    case 3
    have "0 \<le> nearest (- x)" "0 \<le> nearest y" using 3 by (simp_all add: nearest_nonneg)
    then show ?thesis by (simp add: nearest_uminus)
  qed
qed


lemma nearest_abs: "\<bar>nearest x\<bar> = nearest \<bar>x\<bar>"
proof (cases "0 \<le> x")
  case True
  then show ?thesis using nearest_nonneg [of x] by simp
next
  case False
  then have "0 \<le> nearest (- x)" by (intro nearest_nonneg) simp
  then show ?thesis using False by (simp add: nearest_uminus)
qed

lemma nearest_le_powi:
  assumes "\<bar>x\<bar> \<le> 2 powi k" and "- 1074 \<le> k"
  shows "\<bar>nearest x\<bar> \<le> 2 powi k"
proof -
  have "nearest \<bar>x\<bar> \<le> nearest (2 powi k)" using assms(1) by (rule nearest_mono)
  then show ?thesis using assms(2) by (simp add: nearest_abs nearest_powi)
qed

lemma double_Fin:
  assumes "\<bar>x\<bar> \<le> 2 powi k" and "- 1074 \<le> k" and "k \<le> 1023"
  shows "double x = Fin (nearest x)"
proof -
  have "\<bar>nearest x\<bar> \<le> 2 powi k" using assms(1,2) by (rule nearest_le_powi)
  also have "(2::real) powi k < 2 powi 1024" using assms(3) by (intro powi2_less) simp
  finally have "\<not> 2 ^ 1024 \<le> \<bar>nearest x\<bar>" by simp
  then show ?thesis by (simp add: double_def Let_def)
qed

text \<open>The value of \<open>double\<close> at a number of the binade of exponent \<open>e\<close>.\<close>

lemma double_eval:
  assumes "2 powi e \<le> \<bar>x\<bar>" and "\<bar>x\<bar> < 2 powi (e + 1)" and "- 1022 \<le> e" and "e \<le> 1022"
  shows "double x = Fin (of_int (rne (x * 2 powi (52 - e))) * 2 powi (e - 52))"
proof -
  have e: "expo x = e" using assms by (intro expo_eqI) simp_all
  have "double x = Fin (nearest x)"
    using assms(2,3,4) by (intro double_Fin [of x "e + 1"]) simp_all
  moreover have "x / 2 powi (e - 52) = x * 2 powi (52 - e)"
    by (simp add: power_int_diff field_simps)
  ultimately show ?thesis by (simp add: nearest_def Let_def e)
qed

text \<open>A number with a significand of 53 bits is a double.\<close>

lemma double_exact:
  assumes "x = of_int m * 2 powi j" and "\<bar>m\<bar> < 2 ^ 53" and "- 1074 \<le> j" and "j \<le> 970"
  shows "double x = Fin x"
proof -
  have "\<bar>m\<bar> \<le> 2 ^ 53" using assms(2) by simp
  then have m: "real_of_int \<bar>m\<bar> \<le> real_of_int (2 ^ 53)" by (simp only: of_int_le_iff)
  have "\<bar>x\<bar> = of_int \<bar>m\<bar> * 2 powi j" by (simp add: assms(1) abs_mult)
  also have "\<dots> \<le> real_of_int (2 ^ 53) * 2 powi j"
    using m by (rule mult_right_mono) simp
  also have "\<dots> = 2 powi (53 + j)" by (simp flip: powi2_add)
  finally have "double x = Fin (nearest x)"
    using assms(3,4) by (intro double_Fin [of x "53 + j"]) simp_all
  then show ?thesis using nearest_exact [OF assms(1,2,3)] by simp
qed

lemma double_of_int: "\<bar>m\<bar> < 2 ^ 53 \<Longrightarrow> double (of_int m) = Fin (of_int m)"
  using double_exact [of "of_int m" m 0] by simp

lemma double_0 [simp]: "double 0 = Fin 0"
  using double_of_int [of 0] by simp

lemma double_not_NaN [simp]: "double x \<noteq> NaN"
  by (simp add: double_def Let_def)

lemma double_cases: "double x = Fin (nearest x) \<or> double x = PInf \<and> 0 < x \<or> double x = NInf \<and> x < 0"
proof (cases "2 ^ 1024 \<le> \<bar>nearest x\<bar>")
  case True
  have "x \<noteq> 0" using True by auto
  then show ?thesis using True by (auto simp add: double_def Let_def)
next
  case False
  then show ?thesis by (simp add: double_def Let_def)
qed

lemma double_nonneg: "0 \<le> x \<Longrightarrow> double x = PInf \<or> double x = Fin (nearest x) \<and> 0 \<le> nearest x"
  using double_cases [of x] nearest_nonneg [of x] by auto

lemma double_nonpos: "x \<le> 0 \<Longrightarrow> double x = NInf \<or> double x = Fin (nearest x) \<and> nearest x \<le> 0"
  using double_cases [of x] nearest_nonneg [of "- x"] by (auto simp add: nearest_uminus)

section \<open>Arithmetic on numbers\<close>

lemma minus_Fin: "Fin a - Fin b = double (a - b)"
  by (simp add: minus_jsnum_def)

lemma jsnum_less_irrefl [simp]: "\<not> (x::jsnum) < x"
  by (cases x) simp_all

lemma zero_times_Fin [simp]: "Fin 0 * Fin r = Fin 0"
  by simp

lemma Math_max_zero_double:
  "Math_max (Fin 0) (double x) = (if 0 < x then double x else Fin 0)"
  using double_nonneg [of x] double_nonpos [of x] by (cases "0 < x") auto

lemma Math_max_zero_minus:
  assumes "y \<noteq> NaN"
  shows "Math_max (Fin 0) (Fin t - y) = (if y < Fin t then Fin t - y else Fin 0)"
proof (cases y)
  case (Fin b)
  then show ?thesis by (simp add: minus_Fin Math_max_zero_double)
qed (use assms in \<open>simp_all add: minus_jsnum_def\<close>)

lemma is_finite_Fin: "is_finite x \<Longrightarrow> \<exists>r. x = Fin r"
  by (cases x) simp_all

lemmas double_at =
  double_eval [where e = "- 5"] double_eval [where e = "- 4"] double_eval [where e = "- 3"]
  double_eval [where e = "- 2"] double_eval [where e = "- 1"] double_eval [where e = 0]
  double_eval [where e = 1] double_eval [where e = 2] double_eval [where e = 3]
  double_eval [where e = 4] double_eval [where e = 5] double_eval [where e = 6]
  double_eval [where e = 7] double_eval [where e = 8] double_eval [where e = 9]
  double_eval [where e = 10] double_eval [where e = 11] double_eval [where e = 12]
  double_eval [where e = 13]

section \<open>Rental fare: the package formula\<close>

text \<open>
  Claim C7. A rental booking whose package is found, with finite package figures
  (\<open>b\<close> the base fare, \<open>k\<close> the kilometres included, \<open>r\<close> and \<open>m\<close> the extra
  kilometre and extra minute rates, \<open>h\<close> the hours selected), distance \<open>d\<close> and
  duration \<open>t\<close>, in the arithmetic of doubles: the extra kilometre charge is
  \<open>max(0, d - k) * r\<close>, the extra time charge is \<open>max(0, t - h * 60) * m\<close>; surge,
  deadhead, platform fee and both GST lines are 0; \<open>within_allowance\<close> holds exactly when
  both extra charges are 0; the total is the sum of base fare and the two charges, rounded
  half up; and \<open>d = k\<close>, \<open>t = h * 60\<close> give \<open>within_allowance\<close> and, the base fare being a
  double, the rounded base fare as total.
\<close>

theorem rental_fare:
  assumes "first_row (rental_fares st vehicleType hours) = Some pkg"
    and "Number hours = Fin h"
    and "Number (rf_base_fare pkg) = Fin b"
    and "Number (rf_km_included pkg) = Fin k"
    and "Number (rf_extra_km_rate pkg) = Fin r"
    and "Number (or_val (rf_extra_minute_rate pkg) (JNum (Fin 0))) = Fin m"
  shows "\<exists>fb. calculateRentalFare st vehicleType (Fin d) (Fin t) hours = Inr fb \<and>
           extra_km_charges fb = Math_max (Fin 0) (Fin d - Fin k) * Fin r \<and>
           distance_fare fb = Math_max (Fin 0) (Fin d - Fin k) * Fin r \<and>
           time_fare fb = Math_max (Fin 0) (Fin t - Fin h * Fin 60) * Fin m \<and>
           surge_charges fb = Fin 0 \<and> deadhead_charges fb = Fin 0 \<and>
           platform_fee fb = Fin 0 \<and> gst_on_charges fb = Fin 0 \<and>
           gst_on_platform_fee fb = Fin 0 \<and>
           within_allowance (details fb) =
             Some (extra_km_charges fb = Fin 0 \<and> time_fare fb = Fin 0) \<and>
           total_fare fb = Math_round (Fin b + extra_km_charges fb + time_fare fb) \<and>
           (d = k \<and> Fin t = Fin h * Fin 60 \<and> double b = Fin b \<longrightarrow>
              within_allowance (details fb) = Some True \<and>
              total_fare fb = Math_round (Fin b))"
proof -
  have km: "Math_max (Fin 0) (Fin d - Fin k) * Fin r =
      (if Fin k < Fin d then (Fin d - Fin k) * Fin r else Fin 0)"
    by (simp add: Math_max_zero_minus)
  have pm: "Fin h * Fin 60 \<noteq> NaN" by simp
  have mn: "Math_max (Fin 0) (Fin t - Fin h * Fin 60) * Fin m =
      (if Fin h * Fin 60 < Fin t then (Fin t - Fin h * Fin 60) * Fin m else Fin 0)"
    unfolding Math_max_zero_minus [OF pm] by simp
  show ?thesis
    unfolding km mn using assms
    by (auto simp add: calculateRentalFare_def Let_def strict_eq_def)
qed

lemma example_rental_row:
  "first_row (rental_fares exampleStore ''sedan'' (num 4)) = Some examplePackage"
  by (simp add: exampleStore_def first_row_def rows_def)

lemma example_rental_figures:
  "Number (num 4) = Fin 4" "Number (rf_base_fare examplePackage) = Fin 800"
  "Number (rf_km_included examplePackage) = Fin 40"
  "Number (rf_extra_km_rate examplePackage) = Fin 15"
  "Number (or_val (rf_extra_minute_rate examplePackage) (JNum (Fin 0))) = Fin 2"
  by (simp_all add: num_def examplePackage_def or_val_def truthy_num_def)

lemma double_40_3: "double (403 / 10) = Fin (2835860390359859 / 70368744177664)"
  by (simp add: double_eval [where e = 5] rne_def)

theorem rental_fare_witness:
  "first_row (rental_fares exampleStore ''sedan'' (num 4)) = Some examplePackage \<and>
   (\<exists>fb. calculateRentalFare exampleStore ''sedan'' (Fin 40) (Fin 240) (num 4) = Inr fb \<and>
      extra_km_charges fb = Fin 0 \<and> time_fare fb = Fin 0 \<and>
      within_allowance (details fb) = Some True \<and> total_fare fb = Fin 800) \<and>
   (\<exists>fb. calculateRentalFare exampleStore ''sedan'' (Fin 55) (Fin 250) (num 4) = Inr fb \<and>
      extra_km_charges fb = Fin 225 \<and> time_fare fb = Fin 20 \<and>
      within_allowance (details fb) = Some False \<and> total_fare fb = Fin 1045) \<and>
   (\<exists>fb. calculateRentalFare exampleStore ''sedan'' (double (403 / 10)) (Fin 240) (num 4) = Inr fb \<and>
      extra_km_charges fb = Fin (316659348799485 / 70368744177664) \<and> time_fare fb = Fin 0 \<and>
      total_fare fb = Fin 805)"
proof -
  note h = example_rental_figures
  have 1: "\<exists>fb. calculateRentalFare exampleStore ''sedan'' (Fin 40) (Fin 240) (num 4) = Inr fb \<and>
      extra_km_charges fb = Fin 0 \<and> time_fare fb = Fin 0 \<and>
      within_allowance (details fb) = Some True \<and> total_fare fb = Fin 800"
    using rental_fare [OF example_rental_row h, of 40 240]
    by (auto simp add: minus_Fin double_at rne_def)
  have 2: "\<exists>fb. calculateRentalFare exampleStore ''sedan'' (Fin 55) (Fin 250) (num 4) = Inr fb \<and>
      extra_km_charges fb = Fin 225 \<and> time_fare fb = Fin 20 \<and>
      within_allowance (details fb) = Some False \<and> total_fare fb = Fin 1045"
    using rental_fare [OF example_rental_row h, of 55 250]
    by (auto simp add: minus_Fin double_at rne_def)
  have 3: "\<exists>fb. calculateRentalFare exampleStore ''sedan'' (double (403 / 10)) (Fin 240) (num 4) = Inr fb \<and>
      extra_km_charges fb = Fin (316659348799485 / 70368744177664) \<and> time_fare fb = Fin 0 \<and>
      total_fare fb = Fin 805"
    unfolding double_40_3
    using rental_fare [OF example_rental_row h, of "2835860390359859 / 70368744177664" 240]
    by (auto simp add: minus_Fin double_at rne_def)
  show ?thesis
    using 1 2 3 example_rental_row by blast
qed

section \<open>Outstation fare: the day count\<close>

text \<open>
  The code divides the milliseconds by \<open>1000 * 60 * 60\<close> and the hours by 24, rounding
  twice, before it takes the ceiling. On a whole number of milliseconds up to \<open>2\<^sup>5\<^sup>1\<close>
  (some 70000 years) the result is the ceiling of the exact quotient by 86400000.
\<close>

lemma days_exact:
  fixes x :: int
  assumes "0 \<le> x" and "x \<le> 2 ^ 51"
  shows "\<lceil>nearest (nearest (real_of_int x / 3600000) / 24)\<rceil> = \<lceil>real_of_int x / 86400000\<rceil>"
proof (cases "x = 0")
  case True
  then show ?thesis by simp
next
  case False
  then have x1: "1 \<le> x" using assms(1) by simp
  define k where "k = \<lceil>real_of_int x / 86400000\<rceil>"
  define j where "j = k - 1"
  have ku: "real_of_int x / 86400000 \<le> real_of_int k"
    unfolding k_def by (rule le_of_int_ceiling)
  have "real_of_int k - 1 < real_of_int x / 86400000"
    unfolding k_def using ceiling_correct [of "real_of_int x / 86400000"] by simp
  then have "real_of_int (86400000 * j) < real_of_int x"
    by (simp add: j_def field_simps)
  then have jl: "86400000 * j < x" by (simp only: of_int_less_iff)
  have "0 < real_of_int x / 86400000" using x1 by simp
  then have "0 < k" unfolding k_def by simp
  then have j0: "0 \<le> j" by (simp add: j_def)
  have jb: "j \<le> 26062497" using jl assms(2) by simp
  have kb: "\<bar>24 * k\<bar> < 2 ^ 53" "\<bar>k\<bar> < 2 ^ 53" using j0 jb by (simp_all add: j_def)
  define q1 where "q1 = nearest (real_of_int x / 3600000)"
  define q2 where "q2 = nearest (q1 / 24)"
  have "real_of_int x / 3600000 \<le> real_of_int (24 * k)" using ku by simp
  then have "q1 \<le> nearest (real_of_int (24 * k))" unfolding q1_def by (rule nearest_mono)
  then have q1u: "q1 \<le> real_of_int (24 * k)" by (simp only: nearest_of_int [OF kb(1)])
  then have "q1 / 24 \<le> real_of_int k" by simp
  then have "q2 \<le> nearest (real_of_int k)" unfolding q2_def by (rule nearest_mono)
  then have q2u: "q2 \<le> real_of_int k" by (simp only: nearest_of_int [OF kb(2)])
  define r where "r = real_of_int (24 * j * 2 ^ 22 + 1) * 2 powi (- 22)"
  define r' where "r' = real_of_int (j * 2 ^ 27 + 1) * 2 powi (- 27)"
  have m: "\<bar>24 * j * 2 ^ 22 + 1\<bar> < 2 ^ 53" "\<bar>j * 2 ^ 27 + 1\<bar> < 2 ^ 53"
    using j0 jb by simp_all
  have nr: "nearest r = r" "nearest r' = r'"
    using nearest_exact [OF r_def m(1)] nearest_exact [OF r'_def m(2)] by simp_all
  have rv: "r = 24 * real_of_int j + 1 / 4194304" "r' = real_of_int j + 1 / 134217728"
    by (simp_all add: r_def r'_def power_int_minus field_simps)
  have "86400000 * j + 1 \<le> x" using jl by simp
  then have "real_of_int (86400000 * j + 1) \<le> real_of_int x" by (simp only: of_int_le_iff)
  then have "r \<le> real_of_int x / 3600000" unfolding rv by simp
  then have "nearest r \<le> q1" unfolding q1_def by (rule nearest_mono)
  then have "r \<le> q1" by (simp only: nr)
  then have "r' \<le> q1 / 24" unfolding rv by simp
  then have "nearest r' \<le> q2" unfolding q2_def by (rule nearest_mono)
  then have "r' \<le> q2" by (simp only: nr)
  then have "real_of_int j < q2" unfolding rv by simp
  then have "j < \<lceil>q2\<rceil>" by (simp only: less_ceiling_iff)
  moreover have "\<lceil>q2\<rceil> \<le> k" using q2u by (simp only: ceiling_le_iff)
  ultimately have "\<lceil>q2\<rceil> = k" by (simp add: j_def)
  then show ?thesis by (simp only: q2_def q1_def k_def)
qed

lemma Math_max_one_int: "Math_max (Fin 1) (Fin (of_int c)) = Fin (of_int (max 1 c))"
  by (simp add: max_def)

lemma numberOfDays_Fin:
  assumes "startTimeOf scheduledTime clk = Fin (of_int s)"
    and "\<bar>clock_end clk - s\<bar> \<le> 2 ^ 51"
  shows "numberOfDays scheduledTime clk =
           Fin (of_int (max 1 \<lceil>real_of_int \<bar>clock_end clk - s\<bar> / 86400000\<rceil>))"
proof -
  define x where "x = \<bar>clock_end clk - s\<bar>"
  have x: "0 \<le> x" "x \<le> 2 ^ 51" "\<bar>clock_end clk - s\<bar> < 2 ^ 53"
    using assms(2) by (simp_all add: x_def)
  have xr: "real_of_int x \<le> 2 ^ 51" using x(2) by (simp flip: of_int_le_iff)
  have d: "Fin (of_int (clock_end clk)) - Fin (of_int s) = Fin (of_int (clock_end clk - s))"
    using double_of_int [OF x(3)] by (simp add: minus_Fin)
  have a: "Math_abs (Fin (of_int (clock_end clk - s))) = Fin (of_int x)"
    by (simp add: x_def)
  have b1: "\<bar>real_of_int x / 3600000\<bar> \<le> 2 powi 51" using x(1) xr by simp
  have h: "Fin (of_int x) / Fin (1000 * 60 * 60) = Fin (nearest (real_of_int x / 3600000))"
    using double_Fin [OF b1] by simp
  have "\<bar>nearest (real_of_int x / 3600000)\<bar> \<le> 2 powi 51"
    using b1 by (rule nearest_le_powi) simp
  then have b2: "\<bar>nearest (real_of_int x / 3600000) / 24\<bar> \<le> 2 powi 51" by simp
  have q: "Fin (nearest (real_of_int x / 3600000)) / Fin 24 =
      Fin (nearest (nearest (real_of_int x / 3600000) / 24))"
    using double_Fin [OF b2] by simp
  have "numberOfDays scheduledTime clk =
      Math_max (Fin 1) (Fin (of_int \<lceil>nearest (nearest (real_of_int x / 3600000) / 24)\<rceil>))"
    unfolding numberOfDays_def Let_def assms(1) d a h q by simp
  then have "numberOfDays scheduledTime clk =
      Fin (of_int (max 1 \<lceil>real_of_int x / 86400000\<rceil>))"
    by (simp only: days_exact [OF x(1,2)] Math_max_one_int)
  then show ?thesis
    by (simp only: x_def)
qed

lemma startTimeOf_cases:
  "scheduledTime = None \<and> s = clock_start clk \<or> scheduledTime = Some (Fin (of_int s)) \<Longrightarrow>
     startTimeOf scheduledTime clk = Fin (of_int s)"
  by (auto simp add: startTimeOf_def)

section \<open>Outstation fare: one way and per kilometre\<close>

text \<open>
  Claim C8. A one-way outstation booking whose configuration is found, with a scheduled
  time that is absent or a date, finite base fare \<open>b\<close>, rate \<open>k\<close>, platform fee \<open>p\<close> and
  distance \<open>d\<close>, in the arithmetic of doubles: the kilometre fare is \<open>d * k * 2\<close>, there
  is no driver allowance, and the total is the rounded sum of base fare, kilometre fare,
  platform fee, 0.05 times base plus kilometre fare and 0.18 times the platform fee. The
  platform fee is that of the single fare matrix row of outstation rides, and 10 when
  there is no such row. With \<open>b = 100\<close>, \<open>k = 10\<close>, \<open>d = 20\<close> the kilometre fare is 400.
\<close>

theorem outstation_one_way:
  assumes "first_row (outstation_fares st vehicleType) = Some cfg"
    and "scheduledTime = None \<or> (\<exists>s. scheduledTime = Some (Fin s))"
    and "Number (of_base_fare cfg) = Fin b"
    and "Number (of_per_km_rate cfg) = Fin k"
    and "outstationPlatformFee st vehicleType = Fin p"
  shows "\<exists>fb. calculateOutstationFare st clk vehicleType (Fin d) mins scheduledTime ''one_way''
               = Inr fb \<and>
           base_fare fb = of_base_fare cfg \<and>
           distance_fare fb = Fin d * Fin k * Fin 2 \<and>
           driver_allowance fb = Fin 0 \<and>
           platform_fee fb = Fin p \<and>
           gst_on_charges fb = (Fin b + Fin d * Fin k * Fin 2) * double (5 / 100) \<and>
           gst_on_platform_fee fb = Fin p * double (18 / 100) \<and>
           total_fare fb =
             Math_round (Fin b + distance_fare fb + platform_fee fb + gst_on_charges fb +
                         gst_on_platform_fee fb) \<and>
           (single (fare_matrix st ''outstation'' vehicleType) = None \<longrightarrow> p = 10) \<and>
           (\<forall>row. single (fare_matrix st ''outstation'' vehicleType) = Some row \<longrightarrow>
                  Fin p = parseFloatOr (fm_platform_fee row) (Fin 10)) \<and>
           (b = 100 \<and> k = 10 \<and> d = 20 \<longrightarrow> distance_fare fb = Fin 400)"
proof -
  have fin: "is_finite (startTimeOf scheduledTime clk)"
    using assms(2) by (auto simp add: startTimeOf_def)
  have pf: "single (fare_matrix st ''outstation'' vehicleType) = None \<longrightarrow> p = 10"
    "\<forall>row. single (fare_matrix st ''outstation'' vehicleType) = Some row \<longrightarrow>
           Fin p = parseFloatOr (fm_platform_fee row) (Fin 10)"
    using assms(5) by (auto simp add: outstationPlatformFee_def)
  have ex: "Fin 20 * Fin 10 * Fin 2 = Fin 400"
    by (simp add: double_at rne_def)
  define fb where "fb = \<lparr> booking_type = ''outstation'', vehicle_type = vehicleType,
       base_fare = of_base_fare cfg, distance_fare = Fin d * Fin k * Fin 2, time_fare = Fin 0,
       surge_charges = Fin 0, deadhead_charges = Fin 0, platform_fee = Fin p,
       gst_on_charges = (Fin b + Fin d * Fin k * Fin 2) * double (5 / 100),
       gst_on_platform_fee = Fin p * double (18 / 100),
       extra_km_charges = Fin 0, driver_allowance = Fin 0,
       total_fare = Math_round (Fin b + Fin d * Fin k * Fin 2 + Fin p +
         (Fin b + Fin d * Fin k * Fin 2) * double (5 / 100) + Fin p * double (18 / 100)),
       details = (details0 (Fin d) mins (of_per_km_rate cfg))
         \<lparr> days_calculated := Some (numberOfDays scheduledTime clk),
           within_allowance := Some True, total_km_travelled := Some (Fin d),
           direction := Some ''one_way'' \<rparr> \<rparr>"
  have c: "calculateOutstationFare st clk vehicleType (Fin d) mins scheduledTime ''one_way'' = Inr fb"
    unfolding calculateOutstationFare_def outstationOneWay_def Let_def fb_def
    using assms(1,3,4,5) fin by simp
  have f: "base_fare fb = of_base_fare cfg" "distance_fare fb = Fin d * Fin k * Fin 2"
    "driver_allowance fb = Fin 0" "platform_fee fb = Fin p"
    "gst_on_charges fb = (Fin b + Fin d * Fin k * Fin 2) * double (5 / 100)"
    "gst_on_platform_fee fb = Fin p * double (18 / 100)"
    "total_fare fb = Math_round (Fin b + distance_fare fb + platform_fee fb + gst_on_charges fb +
                         gst_on_platform_fee fb)"
    by (simp_all add: fb_def)
  have e: "b = 100 \<and> k = 10 \<and> d = 20 \<longrightarrow> distance_fare fb = Fin 400"
    using ex by (simp add: fb_def)
  show ?thesis
    by (rule exI [of _ fb]) (intro conjI c f e pf)
qed

lemma example_outstation_row:
  "first_row (outstation_fares exampleStore v) = Some exampleOutstation"
  "first_row (outstation_fares noMatrixStore v) = Some exampleOutstation"
  "first_row (outstation_fares noSlabStore v) = Some exampleOutstation"
  by (simp_all add: exampleStore_def noMatrixStore_def noSlabStore_def first_row_def rows_def)

lemma example_outstation_figures:
  "Number (of_base_fare exampleOutstation) = Fin 100"
  "Number (of_per_km_rate exampleOutstation) = Fin 10"
  "Number (of_driver_allowance_per_day exampleOutstation) = Fin 300"
  "Number (of_daily_km_limit exampleOutstation) = Fin 250"
  by (simp_all add: exampleOutstation_def num_def)

lemma example_platform_fee:
  "outstationPlatformFee exampleStore v = Fin 20"
  "outstationPlatformFee noSlabStore v = Fin 20"
  "outstationPlatformFee noMatrixStore v = Fin 10"
  by (simp_all add: outstationPlatformFee_def exampleStore_def noMatrixStore_def noSlabStore_def
        single_def rows_def num_def)

lemma example_single:
  "single (fare_matrix noMatrixStore ''outstation'' v) = None"
  "single (fare_matrix exampleStore ''outstation'' v) \<noteq> None"
  by (simp_all add: exampleStore_def noMatrixStore_def single_def rows_def)

lemma double_16_9: "double (169 / 10) = Fin (2378463553205043 / 140737488355328)"
  by (simp add: double_eval [where e = 4] rne_def)

theorem outstation_one_way_witness:
  "first_row (outstation_fares exampleStore ''sedan'') = Some exampleOutstation \<and>
   (\<exists>fb. calculateOutstationFare exampleStore oneHourClock ''sedan'' (Fin 20) (Fin 45)
            (Some (Fin 0)) ''one_way'' = Inr fb \<and>
      distance_fare fb = Fin 400 \<and> driver_allowance fb = Fin 0 \<and>
      platform_fee fb = Fin 20 \<and> gst_on_charges fb = Fin 25 \<and> total_fare fb = Fin 549) \<and>
   single (fare_matrix noMatrixStore ''outstation'' ''sedan'') = None \<and>
   (\<exists>fb. calculateOutstationFare noMatrixStore oneHourClock ''sedan'' (Fin 20) (Fin 45)
            None ''one_way'' = Inr fb \<and>
      distance_fare fb = Fin 400 \<and> platform_fee fb = Fin 10 \<and> total_fare fb = Fin 537) \<and>
   (\<exists>fb. calculateOutstationFare exampleStore oneHourClock ''sedan'' (double (169 / 10)) (Fin 45)
            (Some (Fin 0)) ''one_way'' = Inr fb \<and>
      distance_fare fb = Fin 338 \<and> total_fare fb = Fin 484)"
proof -
  have s: "Some (Fin 0) = None \<or> (\<exists>s. Some (Fin 0) = Some (Fin s))"
    "None = None \<or> (\<exists>s. (None :: jsnum option) = Some (Fin s))"
    by simp_all
  have 1: "\<exists>fb. calculateOutstationFare exampleStore oneHourClock ''sedan'' (Fin 20) (Fin 45)
            (Some (Fin 0)) ''one_way'' = Inr fb \<and>
      distance_fare fb = Fin 400 \<and> driver_allowance fb = Fin 0 \<and>
      platform_fee fb = Fin 20 \<and> gst_on_charges fb = Fin 25 \<and> total_fare fb = Fin 549"
    using outstation_one_way [where vehicleType = "''sedan''" and clk = oneHourClock and d = 20
        and mins = "Fin 45", OF example_outstation_row(1) s(1) example_outstation_figures(1,2)
        example_platform_fee(1)]
    by (auto simp add: double_at rne_def)
  have 2: "\<exists>fb. calculateOutstationFare noMatrixStore oneHourClock ''sedan'' (Fin 20) (Fin 45)
            None ''one_way'' = Inr fb \<and>
      distance_fare fb = Fin 400 \<and> platform_fee fb = Fin 10 \<and> total_fare fb = Fin 537"
    using outstation_one_way [where vehicleType = "''sedan''" and clk = oneHourClock and d = 20
        and mins = "Fin 45", OF example_outstation_row(2) s(2) example_outstation_figures(1,2)
        example_platform_fee(3)]
    by (auto simp add: double_at rne_def)
  have 3: "\<exists>fb. calculateOutstationFare exampleStore oneHourClock ''sedan'' (double (169 / 10))
            (Fin 45) (Some (Fin 0)) ''one_way'' = Inr fb \<and>
      distance_fare fb = Fin 338 \<and> total_fare fb = Fin 484"
    unfolding double_16_9
    using outstation_one_way [where vehicleType = "''sedan''" and clk = oneHourClock
        and d = "2378463553205043 / 140737488355328"
        and mins = "Fin 45", OF example_outstation_row(1) s(1) example_outstation_figures(1,2)
        example_platform_fee(1)]
    by (auto simp add: double_at rne_def)
  show ?thesis
    using 1 2 3 example_outstation_row(1) example_single(1) by blast
qed

text \<open>
  Claim C5. A round trip priced per kilometre (it is not a same-day trip of at most
  150 km, or no slab package is found), with \<open>n = max(1, ceil(|now - start| / 24h))\<close> days
  where \<open>start\<close> is the scheduled time, or the clock when there is none, both a whole
  number of milliseconds at most \<open>2\<^sup>5\<^sup>1\<close> apart: the day count of the code is \<open>n\<close>, the
  driver allowance is the allowance per day times \<open>n\<close>, and the kilometre fare is
  \<open>daily_km_limit * n * rate\<close> when the distance is within \<open>daily_km_limit * n\<close>, and
  \<open>distance * rate\<close> otherwise, the products being those of doubles.
\<close>

theorem outstation_round_trip_per_km:
  assumes "tripType \<noteq> ''one_way''"
    and "first_row (outstation_fares st vehicleType) = Some cfg"
    and "scheduledTime = None \<and> s = clock_start clk \<or> scheduledTime = Some (Fin (of_int s))"
    and "\<bar>clock_end clk - s\<bar> \<le> 2 ^ 51"
    and "n = max 1 \<lceil>real_of_int \<bar>clock_end clk - s\<bar> / 86400000\<rceil>"
    and "\<not> (n = 1 \<and> d \<le> 150) \<or> first_row (outstation_packages st vehicleType) = None"
    and "Number (of_per_km_rate cfg) = Fin k"
    and "Number (of_driver_allowance_per_day cfg) = Fin a"
    and "Number (of_daily_km_limit cfg) = Fin l"
  shows "numberOfDays scheduledTime clk = Fin (of_int n) \<and>
         (\<exists>fb. calculateOutstationFare st clk vehicleType (Fin d) mins scheduledTime tripType
                = Inr fb \<and>
            days_calculated (details fb) = Some (Fin (of_int n)) \<and>
            driver_allowance fb = Fin a * Fin (of_int n) \<and>
            distance_fare fb =
              (if Fin d \<le> Fin l * Fin (of_int n) then Fin l * Fin (of_int n) * Fin k
               else Fin d * Fin k))"
proof -
  have st: "startTimeOf scheduledTime clk = Fin (of_int s)"
    using assms(3) by (rule startTimeOf_cases)
  have days: "numberOfDays scheduledTime clk = Fin (of_int n)"
    using numberOfDays_Fin [OF st assms(4)] assms(5) by simp
  have slab: "(if strict_eq (Fin (of_int n)) (Fin 1) \<and> Fin d \<le> Fin 150
               then first_row (outstation_packages st vehicleType) else None) = None"
    using assms(6) by (auto simp add: strict_eq_def)
  have comm: "Fin (of_int n) * Fin a = Fin a * Fin (of_int n)"
    by (simp add: mult.commute)
  show ?thesis
    using assms(1,2,7,8,9) st slab
    by (simp add: calculateOutstationFare_def days Let_def outstationPerKm_def comm
          del: times_jsnum.simps)
qed

theorem outstation_round_trip_per_km_witness:
  "first_row (outstation_fares exampleStore ''sedan'') = Some exampleOutstation \<and>
   numberOfDays (Some (Fin 0)) twoDayClock = Fin 2 \<and>
   (\<exists>fb. calculateOutstationFare exampleStore twoDayClock ''sedan'' (Fin 300) (Fin 1500)
            (Some (Fin 0)) ''round_trip'' = Inr fb \<and>
      driver_allowance fb = Fin 600 \<and> distance_fare fb = Fin 5000) \<and>
   (\<exists>fb. calculateOutstationFare exampleStore twoDayClock ''sedan'' (Fin 600) (Fin 1500)
            (Some (Fin 0)) ''round_trip'' = Inr fb \<and>
      driver_allowance fb = Fin 600 \<and> distance_fare fb = Fin 6000)"
proof -
  have t: "''round_trip'' \<noteq> ''one_way''" by simp
  have s: "Some (Fin 0) = None \<and> 0 = clock_start twoDayClock \<or>
      Some (Fin 0) = Some (Fin (real_of_int 0))"
    by simp
  have b: "\<bar>clock_end twoDayClock - 0\<bar> \<le> 2 ^ 51"
    by (simp add: twoDayClock_def)
  have n: "(2::int) = max 1 \<lceil>real_of_int \<bar>clock_end twoDayClock - 0\<bar> / 86400000\<rceil>"
    by (simp add: twoDayClock_def)
  have m: "\<not> ((2::int) = 1 \<and> (300::real) \<le> 150) \<or>
      first_row (outstation_packages exampleStore ''sedan'') = None"
    "\<not> ((2::int) = 1 \<and> (600::real) \<le> 150) \<or>
      first_row (outstation_packages exampleStore ''sedan'') = None"
    by simp_all
  show ?thesis
    using outstation_round_trip_per_km [where vehicleType = "''sedan''" and mins = "Fin 1500",
        OF t example_outstation_row(1) s b n m(1) example_outstation_figures(2,3,4)]
      outstation_round_trip_per_km [where vehicleType = "''sedan''" and mins = "Fin 1500",
        OF t example_outstation_row(1) s b n m(2) example_outstation_figures(2,3,4)]
    by (auto simp add: example_outstation_row double_at rne_def)
qed

section \<open>Outstation fare: the slab tiers\<close>

lemma decimalText_60: "decimalText 60 = ''60''"
  by (simp add: decimalText.simps [of 60] decimalText.simps [of 6] digitChar_def)

lemma selectSlab_sorted:
  assumes "sorted (map slab_limit sl)" and "\<exists>s \<in> set sl. d \<le> real (slab_limit s)"
  shows "selectSlab (Fin d) dflt sl \<in> set sl \<and>
         d \<le> real (slab_limit (selectSlab (Fin d) dflt sl)) \<and>
         (\<forall>s \<in> set sl. d \<le> real (slab_limit s) \<longrightarrow>
            slab_limit (selectSlab (Fin d) dflt sl) \<le> slab_limit s)"
  using assms
proof (induction sl)
  case Nil
  then show ?case by simp
next
  case (Cons x xs)
  show ?case
  proof (cases "d \<le> real (slab_limit x)")
    case True
    then show ?thesis using Cons.prems(1) by auto
  next
    case False
    then have "\<exists>s \<in> set xs. d \<le> real (slab_limit s)"
      using Cons.prems(2) by auto
    moreover have "sorted (map slab_limit xs)"
      using Cons.prems(1) by simp
    ultimately show ?thesis
      using Cons.IH False by auto
  qed
qed

lemma selectSlab_none:
  "\<forall>s \<in> set sl. \<not> d \<le> Fin (real (slab_limit s)) \<Longrightarrow> selectSlab d dflt sl = dflt"
  by (induction sl) simp_all

lemma slabsOf_sorted: "sorted (map slab_limit (slabsOf pkg))"
  by (simp add: slabsOf_def)

lemma slabsOf_last: "slab_limit (last (slabsOf pkg)) = 150"
  by (simp add: slabsOf_def)

lemma slabsOf_limits:
  "map slab_limit (slabsOf pkg) = [10, 20, 30, 40, 50, 60, 70, 80, 90, 100, 110, 120, 130, 140, 150]"
  by (simp add: slabsOf_def)

lemma slabsOf_covers: "d \<le> 150 \<Longrightarrow> \<exists>s \<in> set (slabsOf pkg). d \<le> real (slab_limit s)"
  by (simp add: slabsOf_def)

lemma selectSlab_55:
  "selectSlab (Fin 55) (last (slabsOf pkg)) (slabsOf pkg) =
     \<lparr> slab_limit = 60, slab_fare = slab_60km pkg \<rparr>"
  by (simp add: slabsOf_def)

text \<open>
  Claim C6. A same-day round trip (one day counted) of at most 150 km. When a slab package
  is found, the fare is that of a tier of the package whose limit covers the distance and
  is the least such limit; the extra kilometres are \<open>max(0, distance - limit)\<close>, charged at
  the extra kilometre rate of the package; there is no driver allowance; and 55 km select
  the 60 km tier with no extra kilometres. When no slab package is found the fare is that
  of the per-kilometre method for one day. The selection loop keeps the last tier (150 km)
  for a distance that no limit covers.
\<close>

theorem outstation_round_trip_slab:
  assumes "tripType \<noteq> ''one_way''"
    and "scheduledTime = None \<and> s = clock_start clk \<or> scheduledTime = Some (Fin (of_int s))"
    and "max 1 \<lceil>real_of_int \<bar>clock_end clk - s\<bar> / 86400000\<rceil> = 1"
    and "d \<le> 150"
  shows "(\<forall>pkg. first_row (outstation_packages st vehicleType) = Some pkg \<longrightarrow>
            (\<exists>fb tier.
               calculateOutstationFare st clk vehicleType (Fin d) mins scheduledTime tripType
                 = Inr fb \<and>
               tier \<in> set (slabsOf pkg) \<and> d \<le> real (slab_limit tier) \<and>
               (\<forall>other \<in> set (slabsOf pkg).
                  d \<le> real (slab_limit other) \<longrightarrow> slab_limit tier \<le> slab_limit other) \<and>
               base_fare fb = JNum (parseFloatOr (slab_fare tier) (Fin 0)) \<and>
               base_km_included (details fb) = Some (num (real (slab_limit tier))) \<and>
               package_name (details fb) = Some (decimalText (slab_limit tier) @ ''km Slab'') \<and>
               extra_km (details fb) = Some (Fin (max 0 (d - real (slab_limit tier)))) \<and>
               extra_km_charges fb =
                 (if 0 < max 0 (d - real (slab_limit tier))
                  then Fin (max 0 (d - real (slab_limit tier))) *
                       parseFloatOr (sp_extra_km_rate pkg) (Fin 0)
                  else Fin 0) \<and>
               driver_allowance fb = Fin 0 \<and>
               (d = 55 \<longrightarrow>
                  slab_limit tier = 60 \<and> slab_fare tier = slab_60km pkg \<and>
                  extra_km (details fb) = Some (Fin 0) \<and>
                  package_name (details fb) = Some ''60km Slab''))) \<and>
         (first_row (outstation_packages st vehicleType) = None \<longrightarrow>
            calculateOutstationFare st clk vehicleType (Fin d) mins scheduledTime tripType =
              outstationPerKm st vehicleType (Fin d) mins (Fin 1)) \<and>
         (\<forall>pkg far. (\<forall>other \<in> set (slabsOf pkg). \<not> far \<le> Fin (real (slab_limit other))) \<longrightarrow>
            selectSlab far (last (slabsOf pkg)) (slabsOf pkg) = last (slabsOf pkg) \<and>
            slab_limit (last (slabsOf pkg)) = 150)"
proof -
  have st: "startTimeOf scheduledTime clk = Fin (of_int s)"
    using assms(2) by (rule startTimeOf_cases)
  have "\<lceil>real_of_int \<bar>clock_end clk - s\<bar> / 86400000\<rceil> \<le> 1"
    using assms(3) by linarith
  then have "real_of_int \<bar>clock_end clk - s\<bar> / 86400000 \<le> 1"
    by (simp only: ceiling_le_iff of_int_1)
  then have "real_of_int \<bar>clock_end clk - s\<bar> \<le> real_of_int 86400000"
    by simp
  then have "\<bar>clock_end clk - s\<bar> \<le> 86400000"
    by (simp only: of_int_le_iff)
  then have "\<bar>clock_end clk - s\<bar> \<le> 2 ^ 51"
    by simp
  then have days: "numberOfDays scheduledTime clk = Fin 1"
    using numberOfDays_Fin [OF st] assms(3) by simp
  have calc: "calculateOutstationFare st clk vehicleType (Fin d) mins scheduledTime tripType =
      (case first_row (outstation_packages st vehicleType) of
         Some slabPackage \<Rightarrow> Inr (outstationSlab st vehicleType (Fin d) mins slabPackage)
       | None \<Rightarrow> outstationPerKm st vehicleType (Fin d) mins (Fin 1))"
    using assms(1,4) st
    by (simp add: calculateOutstationFare_def days Let_def strict_eq_def)
  have slab: "\<exists>fb tier.
               calculateOutstationFare st clk vehicleType (Fin d) mins scheduledTime tripType
                 = Inr fb \<and>
               tier \<in> set (slabsOf pkg) \<and> d \<le> real (slab_limit tier) \<and>
               (\<forall>other \<in> set (slabsOf pkg).
                  d \<le> real (slab_limit other) \<longrightarrow> slab_limit tier \<le> slab_limit other) \<and>
               base_fare fb = JNum (parseFloatOr (slab_fare tier) (Fin 0)) \<and>
               base_km_included (details fb) = Some (num (real (slab_limit tier))) \<and>
               package_name (details fb) = Some (decimalText (slab_limit tier) @ ''km Slab'') \<and>
               extra_km (details fb) = Some (Fin (max 0 (d - real (slab_limit tier)))) \<and>
               extra_km_charges fb =
                 (if 0 < max 0 (d - real (slab_limit tier))
                  then Fin (max 0 (d - real (slab_limit tier))) *
                       parseFloatOr (sp_extra_km_rate pkg) (Fin 0)
                  else Fin 0) \<and>
               driver_allowance fb = Fin 0 \<and>
               (d = 55 \<longrightarrow>
                  slab_limit tier = 60 \<and> slab_fare tier = slab_60km pkg \<and>
                  extra_km (details fb) = Some (Fin 0) \<and>
                  package_name (details fb) = Some ''60km Slab'')"
    if pkg: "first_row (outstation_packages st vehicleType) = Some pkg" for pkg
  proof -
    define tier where "tier = selectSlab (Fin d) (last (slabsOf pkg)) (slabsOf pkg)"
    have sel: "tier \<in> set (slabsOf pkg)" "d \<le> real (slab_limit tier)"
      "\<forall>other \<in> set (slabsOf pkg).
         d \<le> real (slab_limit other) \<longrightarrow> slab_limit tier \<le> slab_limit other"
      using selectSlab_sorted [where dflt = "last (slabsOf pkg)",
          OF slabsOf_sorted [of pkg] slabsOf_covers [OF assms(4), of pkg]]
      unfolding tier_def by blast+
    have ex: "Math_max (Fin 0) (Fin d - Fin (real (slab_limit tier))) =
        Fin (max 0 (d - real (slab_limit tier)))"
      using sel(2) by (simp add: Math_max_zero_minus)
    have p55: "d = 55 \<longrightarrow> tier = \<lparr> slab_limit = 60, slab_fare = slab_60km pkg \<rparr>"
      unfolding tier_def by (simp add: selectSlab_55)
    show ?thesis
      apply (rule exI [of _ "outstationSlab st vehicleType (Fin d) mins pkg"])
      apply (rule exI [of _ tier])
      using sel p55
      by (simp add: calc pkg outstationSlab_def Let_def tier_def [symmetric] ex num_def
            decimalText_60 selectSlab_55 Math_max_zero_minus)
  qed
  have none: "first_row (outstation_packages st vehicleType) = None \<longrightarrow>
            calculateOutstationFare st clk vehicleType (Fin d) mins scheduledTime tripType =
              outstationPerKm st vehicleType (Fin d) mins (Fin 1)"
    by (simp add: calc)
  have far: "\<forall>pkg far. (\<forall>other \<in> set (slabsOf pkg). \<not> far \<le> Fin (real (slab_limit other))) \<longrightarrow>
            selectSlab far (last (slabsOf pkg)) (slabsOf pkg) = last (slabsOf pkg) \<and>
            slab_limit (last (slabsOf pkg)) = 150"
    using selectSlab_none slabsOf_last by blast
  show ?thesis
    using slab none far by blast
qed

lemma example_slab_row:
  "first_row (outstation_packages exampleStore v) = Some exampleSlabs"
  "first_row (outstation_packages noSlabStore v) = None"
  by (simp_all add: exampleStore_def noSlabStore_def first_row_def rows_def)

theorem outstation_round_trip_slab_witness:
  "first_row (outstation_packages exampleStore ''sedan'') = Some exampleSlabs \<and>
   (\<exists>fb. calculateOutstationFare exampleStore oneHourClock ''sedan'' (Fin 55) (Fin 120)
            (Some (Fin 0)) ''round_trip'' = Inr fb \<and>
      base_fare fb = num 1300 \<and> base_km_included (details fb) = Some (num 60) \<and>
      extra_km (details fb) = Some (Fin 0) \<and> extra_km_charges fb = Fin 0 \<and>
      driver_allowance fb = Fin 0 \<and> package_name (details fb) = Some ''60km Slab'') \<and>
   first_row (outstation_packages noSlabStore ''sedan'') = None \<and>
   calculateOutstationFare noSlabStore oneHourClock ''sedan'' (Fin 55) (Fin 120)
     (Some (Fin 0)) ''round_trip'' = outstationPerKm noSlabStore ''sedan'' (Fin 55) (Fin 120) (Fin 1) \<and>
   selectSlab (Fin 200) (last (slabsOf exampleSlabs)) (slabsOf exampleSlabs) =
     last (slabsOf exampleSlabs)"
proof -
  have t: "''round_trip'' \<noteq> ''one_way''" by simp
  have s: "Some (Fin 0) = None \<and> 0 = clock_start oneHourClock \<or>
      Some (Fin 0) = Some (Fin (real_of_int 0))"
    by simp
  have n: "max 1 \<lceil>real_of_int \<bar>clock_end oneHourClock - 0\<bar> / 86400000\<rceil> = 1"
    by (simp add: oneHourClock_def)
  have d: "(55::real) \<le> 150" by simp
  have far: "\<forall>other \<in> set (slabsOf exampleSlabs). \<not> Fin 200 \<le> Fin (real (slab_limit other))"
    by (simp add: slabsOf_def)
  note a = outstation_round_trip_slab [where st = exampleStore and vehicleType = "''sedan''"
      and mins = "Fin 120", OF t s n d]
  note b = outstation_round_trip_slab [where st = noSlabStore and vehicleType = "''sedan''"
      and mins = "Fin 120", OF t s n d]
  have 1: "\<exists>fb. calculateOutstationFare exampleStore oneHourClock ''sedan'' (Fin 55) (Fin 120)
            (Some (Fin 0)) ''round_trip'' = Inr fb \<and>
      base_fare fb = num 1300 \<and> base_km_included (details fb) = Some (num 60) \<and>
      extra_km (details fb) = Some (Fin 0) \<and> extra_km_charges fb = Fin 0 \<and>
      driver_allowance fb = Fin 0 \<and> package_name (details fb) = Some ''60km Slab''"
    using a [THEN conjunct1, rule_format, OF example_slab_row(1)]
    by (auto simp add: exampleSlabs_def num_def)
  have 2: "calculateOutstationFare noSlabStore oneHourClock ''sedan'' (Fin 55) (Fin 120)
     (Some (Fin 0)) ''round_trip'' = outstationPerKm noSlabStore ''sedan'' (Fin 55) (Fin 120) (Fin 1)"
    using b [THEN conjunct2, THEN conjunct1] example_slab_row(2) by simp
  have 3: "selectSlab (Fin 200) (last (slabsOf exampleSlabs)) (slabsOf exampleSlabs) =
     last (slabsOf exampleSlabs)"
    using a [THEN conjunct2, THEN conjunct2] far by blast
  show ?thesis
    using 1 2 3 by (simp add: example_slab_row)
qed

section \<open>Great-circle distance: range and special cases\<close>

lemma haversine_algebra: "(1 - c1) / 2 + (c1 + c2) / 2 * s = (1 - (1 - s) * c1 + s * c2) / 2" for c1 c2 s :: real
  by (simp add: field_simps)

lemma haversineA_range: "0 \<le> haversineA la1 lo1 la2 lo2 \<and> haversineA la1 lo1 la2 lo2 \<le> 1"
proof -
  define p1 where "p1 = toRadians la1"
  define p2 where "p2 = toRadians la2"
  define s where "s = (sin (toRadians (lo2 - lo1) / 2))\<^sup>2"
  define c1 where "c1 = cos (p2 - p1)"
  define c2 where "c2 = cos (p1 + p2)"
  have d: "toRadians (la2 - la1) = p2 - p1"
    by (simp add: toRadians_def p1_def p2_def left_diff_distrib)
  have s01: "0 \<le> s" "s \<le> 1"
    by (simp_all add: s_def abs_square_le_1)
  have c01: "- 1 \<le> c1" "c1 \<le> 1" "- 1 \<le> c2" "c2 \<le> 1"
    by (simp_all add: c1_def c2_def)
  have e: "cos (2 * ((p2 - p1) / 2)) = 1 - 2 * (sin ((p2 - p1) / 2))\<^sup>2"
    by (rule cos_double_sin)
  have t: "2 * ((p2 - p1) / 2) = p2 - p1"
    by simp
  have h: "(sin ((p2 - p1) / 2))\<^sup>2 = (1 - c1) / 2"
    using e unfolding t c1_def by simp
  have c: "cos p1 * cos p2 = (c1 + c2) / 2"
    unfolding c1_def c2_def using cos_times_cos [of p1 p2] by (simp add: cos_diff cos_add)
  have "haversineA la1 lo1 la2 lo2 = (1 - c1) / 2 + (c1 + c2) / 2 * s"
    unfolding haversineA_def d p1_def [symmetric] p2_def [symmetric] s_def [symmetric] h c ..
  then have a: "haversineA la1 lo1 la2 lo2 = (1 - (1 - s) * c1 + s * c2) / 2"
    by (simp only: haversine_algebra)
  have b1: "(1 - s) * c1 \<le> 1 - s" "- (1 - s) \<le> (1 - s) * c1"
    using s01 c01 mult_left_mono [of c1 1 "1 - s"] mult_left_mono [of "-1" c1 "1 - s"]
    by simp_all
  have b2: "s * c2 \<le> s" "- s \<le> s * c2"
    using s01 c01 mult_left_mono [of c2 1 s] mult_left_mono [of "-1" c2 s]
    by simp_all
  show ?thesis unfolding a using b1 b2 by simp
qed

lemma calculateHaversineDistance_Fin:
  "calculateHaversineDistance (Fin la1) (Fin lo1) (Fin la2) (Fin lo2) =
     Fin (haversineKm la1 lo1 la2 lo2)"
proof -
  have eq: "sin (toRadians (la2 - la1) / 2) * sin (toRadians (la2 - la1) / 2) +
      cos (toRadians la1) * cos (toRadians la2) * sin (toRadians (lo2 - lo1) / 2) *
      sin (toRadians (lo2 - lo1) / 2) = haversineA la1 lo1 la2 lo2"
    by (simp add: haversineA_def power2_eq_square)
  have r: "\<not> (haversineA la1 lo1 la2 lo2 < 0 \<or> 1 - haversineA la1 lo1 la2 lo2 < 0)"
    using haversineA_range [of la1 lo1 la2 lo2] by simp
  show ?thesis
    unfolding calculateHaversineDistance_def Let_def prod.case jsnum.case eq haversineKm_def
    by (simp only: r if_False)
qed

lemma calculateHaversineDistance_not_finite:
  "\<not> (is_finite a \<and> is_finite b \<and> is_finite c \<and> is_finite d) \<Longrightarrow>
     calculateHaversineDistance a b c d = NaN"
  unfolding calculateHaversineDistance_def
  by (cases a; cases b; cases c; cases d)
     (simp_all only: prod.case jsnum.case is_finite.simps simp_thms)

lemma calculateHaversineDistance_cases:
  "calculateHaversineDistance a b c d = NaN \<or>
   (\<exists>x. calculateHaversineDistance a b c d = Fin x)"
proof (cases "is_finite a \<and> is_finite b \<and> is_finite c \<and> is_finite d")
  case True
  then obtain la1 lo1 la2 lo2 where "a = Fin la1" "b = Fin lo1" "c = Fin la2" "d = Fin lo2"
    by (meson is_finite_Fin)
  then show ?thesis by (simp add: calculateHaversineDistance_Fin)
next
  case False
  then show ?thesis by (simp only: calculateHaversineDistance_not_finite simp_thms)
qed

lemma atan2_nonneg: "0 \<le> y \<Longrightarrow> 0 \<le> x \<Longrightarrow> 0 \<le> atan2 y x"
  by (auto simp add: atan2_def zero_le_arctan_iff)

lemma haversineKm_nonneg: "0 \<le> haversineKm la1 lo1 la2 lo2"
  using haversineA_range [of la1 lo1 la2 lo2]
  by (simp add: haversineKm_def atan2_nonneg)

lemma haversineKm_meridian:
  assumes "\<bar>toRadians (q - p)\<bar> < pi"
  shows "haversineKm p lo q lo = 6371 * \<bar>toRadians (q - p)\<bar>"
proof -
  define x where "x = \<bar>toRadians (q - p)\<bar> / 2"
  have x: "0 \<le> x" "x < pi / 2" using assms by (simp_all add: x_def)
  have sinx: "\<bar>sin (toRadians (q - p) / 2)\<bar> = sin x"
  proof (cases "0 \<le> toRadians (q - p)")
    case True
    then have "toRadians (q - p) / 2 = x" by (simp add: x_def)
    moreover have "0 \<le> sin x" using x by (intro sin_ge_zero) auto
    ultimately show ?thesis by simp
  next
    case False
    then have "toRadians (q - p) / 2 = - x" by (simp add: x_def)
    moreover have "0 \<le> sin x" using x by (intro sin_ge_zero) auto
    ultimately show ?thesis by simp
  qed
  have cosx: "0 < cos x" using x by (intro cos_gt_zero_pi) auto
  have z: "toRadians (lo - lo) = 0"
    by (simp add: toRadians_def)
  have "haversineA p lo q lo = (sin (toRadians (q - p) / 2))\<^sup>2"
    unfolding haversineA_def z by simp
  also have "\<dots> = \<bar>sin (toRadians (q - p) / 2)\<bar>\<^sup>2"
    by (rule power2_abs [symmetric])
  finally have a: "haversineA p lo q lo = (sin x)\<^sup>2"
    by (simp only: sinx)
  have s: "sqrt (haversineA p lo q lo) = sin x"
    unfolding a using x by (simp add: sin_ge_zero)
  have "1 - haversineA p lo q lo = (cos x)\<^sup>2"
    unfolding a by (simp add: cos_squared_eq)
  then have c: "sqrt (1 - haversineA p lo q lo) = cos x"
    using cosx by simp
  have "atan2 (sin x) (cos x) = arctan (tan x)"
    using cosx by (simp add: atan2_def tan_def)
  also have "\<dots> = x" using x by (intro arctan_tan) auto
  finally show ?thesis
    unfolding haversineKm_def s c by (simp add: x_def)
qed

lemma haversineKm_same: "haversineKm la lo la lo = 0"
  using haversineKm_meridian [of la la lo] by (simp add: toRadians_def)

lemma calculateDistance_Fin:
  "calculateDistance \<lparr> latitude = Fin la1, longitude = Fin lo1 \<rparr>
     \<lparr> latitude = Fin la2, longitude = Fin lo2 \<rparr> = Fin (haversineKm la1 lo1 la2 lo2)"
  by (simp add: calculateDistance_def calculateHaversineDistance_Fin)

lemma calculateDistance_cases:
  "calculateDistance a b = NaN \<or> (\<exists>x. 0 \<le> x \<and> calculateDistance a b = Fin x)"
proof (cases "is_finite (latitude a) \<and> is_finite (longitude a) \<and>
    is_finite (latitude b) \<and> is_finite (longitude b)")
  case True
  then obtain la1 lo1 la2 lo2 where "latitude a = Fin la1" "longitude a = Fin lo1"
      "latitude b = Fin la2" "longitude b = Fin lo2"
    by (meson is_finite_Fin)
  then show ?thesis
    by (simp add: calculateDistance_def calculateHaversineDistance_Fin haversineKm_nonneg)
next
  case False
  then show ?thesis
    by (simp only: calculateDistance_def calculateHaversineDistance_not_finite simp_thms)
qed

lemma haversineKm_meridian_degrees:
  assumes "\<bar>q - p\<bar> < 180"
  shows "haversineKm p lo q lo = 6371 * (\<bar>q - p\<bar> * pi / 180)"
proof -
  have e: "\<bar>toRadians (q - p)\<bar> = \<bar>q - p\<bar> * pi / 180"
    by (simp add: toRadians_def abs_mult)
  have "\<bar>q - p\<bar> * pi < 180 * pi"
    using assms by (intro mult_strict_right_mono) simp_all
  then have "\<bar>toRadians (q - p)\<bar> < pi"
    unfolding e by simp
  then show ?thesis
    using haversineKm_meridian [where p = p and q = q and lo = lo] e by simp
qed

text \<open>The fixed point of the deadhead charge and of the airport direction.\<close>

lemma fixed_point_doubles:
  "double 12.7401984 = Fin (nearest 12.7401984)" "double 77.824 = Fin (nearest 77.824)"
  using double_Fin [of "12.7401984" 7] double_Fin [of "77.824" 7] by simp_all

lemma cityCenter_Fin:
  "cityCenter = \<lparr> latitude = Fin (nearest 12.7401984), longitude = Fin (nearest 77.824) \<rparr>"
  unfolding cityCenter_def fixed_point_doubles ..

lemma HOSUR_BUS_STAND_Fin:
  "HOSUR_BUS_STAND = \<lparr> latitude = Fin (nearest 12.7401984), longitude = Fin (nearest 77.824) \<rparr>"
  unfolding HOSUR_BUS_STAND_def fixed_point_doubles ..

lemma atan2_le: "0 \<le> y \<Longrightarrow> 0 \<le> x \<Longrightarrow> atan2 y x \<le> pi / 2"
  using arctan_ubound [of "y / x"] by (auto simp add: atan2_def)

lemma haversineKm_le: "haversineKm la1 lo1 la2 lo2 \<le> 2 ^ 15"
proof -
  have "atan2 (sqrt (haversineA la1 lo1 la2 lo2)) (sqrt (1 - haversineA la1 lo1 la2 lo2)) \<le> pi / 2"
    using haversineA_range [of la1 lo1 la2 lo2] by (intro atan2_le) simp_all
  then have "haversineKm la1 lo1 la2 lo2 \<le> 6371 * pi"
    by (simp add: haversineKm_def)
  also have "\<dots> \<le> 6371 * 4" using pi_less_4 by simp
  finally show ?thesis by simp
qed

text \<open>Half a distance is a finite number.\<close>

lemma half_distance: "Fin (haversineKm la1 lo1 la2 lo2) / Fin 2 = Fin (nearest (haversineKm la1 lo1 la2 lo2 / 2))"
proof -
  have "\<bar>haversineKm la1 lo1 la2 lo2 / 2\<bar> \<le> 2 powi 15"
    using haversineKm_le [of la1 lo1 la2 lo2] haversineKm_nonneg [of la1 lo1 la2 lo2] by simp
  then have "double (haversineKm la1 lo1 la2 lo2 / 2) = Fin (nearest (haversineKm la1 lo1 la2 lo2 / 2))"
    by (rule double_Fin) simp_all
  then show ?thesis by simp
qed

section \<open>Airport fare: direction and flat fare\<close>

text \<open>
  Claim C9. An airport booking whose configuration is found, between finite coordinates:
  when the pickup is nearer to the city centre (the doubles 12.7401984, 77.824) than the
  drop, by the Haversine distance, the fare is the Hosur-to-airport fare; when the drop is nearer, it
  is the airport-to-Hosur fare. Platform fee, both GST lines and every other charge are
  0, and the total is the fare rounded half up.
\<close>

theorem airport_fare:
  assumes "first_row (airport_fares st vehicleType) = Some cfg"
  shows "\<exists>fb. calculateAirportFare st vehicleType (Fin pLat) (Fin pLng) (Fin dLat) (Fin dLng)
               = Inr fb \<and>
           (haversineKm pLat pLng (nearest 12.7401984) (nearest 77.824) < haversineKm dLat dLng (nearest 12.7401984) (nearest 77.824) \<longrightarrow>
              base_fare fb = hosur_to_airport_fare cfg \<and>
              direction (details fb) = Some ''Hosur to Airport'') \<and>
           (haversineKm dLat dLng (nearest 12.7401984) (nearest 77.824) < haversineKm pLat pLng (nearest 12.7401984) (nearest 77.824) \<longrightarrow>
              base_fare fb = airport_to_hosur_fare cfg \<and>
              direction (details fb) = Some ''Airport to Hosur'') \<and>
           distance_fare fb = Fin 0 \<and> time_fare fb = Fin 0 \<and> surge_charges fb = Fin 0 \<and>
           deadhead_charges fb = Fin 0 \<and> extra_km_charges fb = Fin 0 \<and>
           driver_allowance fb = Fin 0 \<and>
           platform_fee fb = Fin 0 \<and> gst_on_charges fb = Fin 0 \<and>
           gst_on_platform_fee fb = Fin 0 \<and>
           total_fare fb = Math_round (Number (base_fare fb)) \<and>
           (\<forall>f. base_fare fb = JNum (Fin f) \<longrightarrow> total_fare fb = Fin (of_int \<lfloor>f + 1 / 2\<rfloor>))"
  using assms unfolding calculateAirportFare_def cityCenter_Fin
  by (simp add: Let_def calculateDistance_Fin)

lemma north_of_center:
  "haversineKm (centerLat + 1 / 2) centerLng centerLat centerLng = 6371 * (1 / 2 * pi / 180)"
  using haversineKm_meridian_degrees [where p = "centerLat + 1 / 2" and q = centerLat
      and lo = centerLng]
  by simp

lemma example_airport_row: "first_row (airport_fares exampleStore v) = Some exampleAirport"
  by (simp add: exampleStore_def first_row_def rows_def)

theorem airport_fare_witness:
  "first_row (airport_fares exampleStore ''sedan'') = Some exampleAirport \<and>
   haversineKm centerLat centerLng centerLat centerLng <
     haversineKm (centerLat + 1 / 2) centerLng centerLat centerLng \<and>
   (\<exists>fb. calculateAirportFare exampleStore ''sedan'' (Fin centerLat) (Fin centerLng)
            (Fin (centerLat + 1 / 2)) (Fin centerLng) = Inr fb \<and>
      base_fare fb = num 1500 \<and> direction (details fb) = Some ''Hosur to Airport'' \<and>
      platform_fee fb = Fin 0 \<and> total_fare fb = Fin 1500) \<and>
   (\<exists>fb. calculateAirportFare exampleStore ''sedan'' (Fin (centerLat + 1 / 2)) (Fin centerLng)
            (Fin centerLat) (Fin centerLng) = Inr fb \<and>
      base_fare fb = num 1400 \<and> direction (details fb) = Some ''Airport to Hosur'' \<and>
      platform_fee fb = Fin 0 \<and> total_fare fb = Fin 1400)"
proof -
  have lt: "haversineKm centerLat centerLng centerLat centerLng <
      haversineKm (centerLat + 1 / 2) centerLng centerLat centerLng"
    unfolding haversineKm_same north_of_center by simp
  show ?thesis
    using lt
      airport_fare [OF example_airport_row, of "''sedan''" centerLat centerLng
        "centerLat + 1 / 2" centerLng]
      airport_fare [OF example_airport_row, of "''sedan''" "centerLat + 1 / 2" centerLng
        centerLat centerLng]
    by (auto simp add: example_airport_row exampleAirport_def num_def centerLat_def
          centerLng_def)
qed

section \<open>Trip distance: the accumulated trajectory\<close>













section \<open>Two runs on the same inputs\<close>

lemma startTimeOf_finite_clock:
  "is_finite (startTimeOf scheduledTime clk) = is_finite (startTimeOf scheduledTime clk')"
  by (cases scheduledTime) (simp_all add: startTimeOf_def)

lemma calculateOutstationFare_days:
  assumes "numberOfDays scheduledTime clk = numberOfDays scheduledTime clk'"
  shows "calculateOutstationFare st clk vehicleType km mins scheduledTime tripType =
         calculateOutstationFare st clk' vehicleType km mins scheduledTime tripType"
  unfolding calculateOutstationFare_def assms
    startTimeOf_finite_clock [of scheduledTime clk clk'] ..

text \<open>
  Claim C10, as amended. Two runs of \<open>calculateAndStoreTripFare\<close> on the same store and
  the same arguments, at two readings of the wall clock, return the same result whenever
  the ride is not an outstation ride, or the day count that the code derives from the
  clock is the same at both readings.
\<close>

theorem fare_same_day_count:
  assumes "\<forall>ride. fst (rides st rideId) = Some ride \<and> ride_booking_type ride = ''outstation'' \<longrightarrow>
      numberOfDays (ride_scheduled_time ride) clk = numberOfDays (ride_scheduled_time ride) clk'"
  shows "calculateAndStoreTripFare st clk rideId km mins pLat pLng dLat dLng =
         calculateAndStoreTripFare st clk' rideId km mins pLat pLng dLat dLng"
proof (cases "rides st rideId")
  case (Pair found rideError)
  show ?thesis
  proof (cases found)
    case None
    then show ?thesis using Pair by (simp add: calculateAndStoreTripFare_def)
  next
    case (Some ride)
    show ?thesis
    proof (cases "ride_booking_type ride = ''outstation''")
      case True
      then have "numberOfDays (ride_scheduled_time ride) clk =
          numberOfDays (ride_scheduled_time ride) clk'"
        using assms Pair Some by simp
      then have "calculateOutstationFare st clk (ride_vehicle_type ride) km mins
            (ride_scheduled_time ride) tt =
          calculateOutstationFare st clk' (ride_vehicle_type ride) km mins
            (ride_scheduled_time ride) tt" for tt
        by (rule calculateOutstationFare_days)
      then show ?thesis
        using Pair Some True by (simp add: calculateAndStoreTripFare_def Let_def)
    next
      case False
      then show ?thesis
        using Pair Some by (simp add: calculateAndStoreTripFare_def Let_def)
    qed
  qed
qed

lemma example_days:
  "numberOfDays (Some (Fin 0)) oneHourClock = Fin 1"
  "numberOfDays (Some (Fin 0)) twoHourClock = Fin 1"
  "numberOfDays (Some (Fin 0)) twoDayClock = Fin 2"
  using numberOfDays_Fin [of "Some (Fin 0)" oneHourClock 0]
    numberOfDays_Fin [of "Some (Fin 0)" twoHourClock 0]
    numberOfDays_Fin [of "Some (Fin 0)" twoDayClock 0]
  by (simp_all add: startTimeOf_def oneHourClock_def twoHourClock_def twoDayClock_def)

lemma example_outstation_ride:
  "calculateAndStoreTripFare exampleStore clk ''outstation'' (Fin 200) mins pLat pLng dLat dLng =
     outstationPerKm exampleStore ''sedan'' (Fin 200) mins (numberOfDays (Some (Fin 0)) clk)"
  by (simp add: calculateAndStoreTripFare_def exampleStore_def exampleRide_def rows_def Let_def
        calculateOutstationFare_def startTimeOf_def first_row_def outstationPerKm_def
        split: sum.splits)

lemma example_driver_allowance:
  "map_sum id driver_allowance (outstationPerKm exampleStore ''sedan'' (Fin 200) mins (Fin 1)) =
     Inr (Fin 300)"
  "map_sum id driver_allowance (outstationPerKm exampleStore ''sedan'' (Fin 200) mins (Fin 2)) =
     Inr (Fin 600)"
  by (simp_all add: outstationPerKm_def exampleStore_def first_row_def rows_def Let_def
        exampleOutstation_def num_def double_at rne_def)

text \<open>
  Claim C10 as stated fails: the same outstation ride on the same store, priced one hour
  and twenty-five hours after its scheduled time, gets a driver allowance of 300 and of
  600.
\<close>

theorem fare_two_runs_counterexample:
  "map_sum id driver_allowance
     (calculateAndStoreTripFare exampleStore oneHourClock ''outstation'' (Fin 200) (Fin 300)
        (Fin 12.75) (Fin 77.75) (Fin 13) (Fin 77.5)) = Inr (Fin 300) \<and>
   map_sum id driver_allowance
     (calculateAndStoreTripFare exampleStore twoDayClock ''outstation'' (Fin 200) (Fin 300)
        (Fin 12.75) (Fin 77.75) (Fin 13) (Fin 77.5)) = Inr (Fin 600) \<and>
   calculateAndStoreTripFare exampleStore oneHourClock ''outstation'' (Fin 200) (Fin 300)
        (Fin 12.75) (Fin 77.75) (Fin 13) (Fin 77.5) \<noteq>
   calculateAndStoreTripFare exampleStore twoDayClock ''outstation'' (Fin 200) (Fin 300)
        (Fin 12.75) (Fin 77.75) (Fin 13) (Fin 77.5)"
proof -
  have a: "map_sum id driver_allowance
     (calculateAndStoreTripFare exampleStore oneHourClock ''outstation'' (Fin 200) (Fin 300)
        (Fin 12.75) (Fin 77.75) (Fin 13) (Fin 77.5)) = Inr (Fin 300)"
    unfolding example_outstation_ride example_days example_driver_allowance by simp
  have b: "map_sum id driver_allowance
     (calculateAndStoreTripFare exampleStore twoDayClock ''outstation'' (Fin 200) (Fin 300)
        (Fin 12.75) (Fin 77.75) (Fin 13) (Fin 77.5)) = Inr (Fin 600)"
    unfolding example_outstation_ride example_days example_driver_allowance by simp
  have "Inr (Fin 300) \<noteq> (Inr (Fin 600) :: string + jsnum)"
    by simp
  then show ?thesis
    using a b by metis
qed

theorem fare_same_day_count_witness:
  "numberOfDays (Some (Fin 0)) oneHourClock = numberOfDays (Some (Fin 0)) twoHourClock \<and>
   calculateAndStoreTripFare exampleStore oneHourClock ''outstation'' (Fin 200) (Fin 300)
        (Fin 12.75) (Fin 77.75) (Fin 13) (Fin 77.5) =
   calculateAndStoreTripFare exampleStore twoHourClock ''outstation'' (Fin 200) (Fin 300)
        (Fin 12.75) (Fin 77.75) (Fin 13) (Fin 77.5) \<and>
   calculateAndStoreTripFare exampleStore oneHourClock ''rental'' (Fin 55) (Fin 250)
        (Fin 12.75) (Fin 77.75) (Fin 13) (Fin 77.5) =
   calculateAndStoreTripFare exampleStore twoDayClock ''rental'' (Fin 55) (Fin 250)
        (Fin 12.75) (Fin 77.75) (Fin 13) (Fin 77.5)"
proof -
  have o: "\<forall>ride. fst (rides exampleStore ''outstation'') = Some ride \<and>
      ride_booking_type ride = ''outstation'' \<longrightarrow>
      numberOfDays (ride_scheduled_time ride) oneHourClock =
      numberOfDays (ride_scheduled_time ride) twoHourClock"
    by (auto simp add: exampleStore_def exampleRide_def example_days)
  have r: "\<forall>ride. fst (rides exampleStore ''rental'') = Some ride \<and>
      ride_booking_type ride = ''outstation'' \<longrightarrow>
      numberOfDays (ride_scheduled_time ride) oneHourClock =
      numberOfDays (ride_scheduled_time ride) twoDayClock"
    by (auto simp add: exampleStore_def exampleRide_def)
  show ?thesis
    using fare_same_day_count [OF o] fare_same_day_count [OF r] by (simp add: example_days)
qed

section \<open>Regular fare: the components\<close>

lemma or_num_simps:
  "or_num NaN d = d"
  "or_num (Fin x) (Fin 0) = Fin x"
  "or_num PInf d = PInf"
  "or_num NInf d = NInf"
  by (simp_all add: or_num_def truthy_num_def)

lemma or_num_zero: "x \<noteq> NaN \<Longrightarrow> or_num x (Fin 0) = x"
  by (cases x) (simp_all add: or_num_simps)

lemma or_num_not_NaN [simp]: "d \<noteq> NaN \<Longrightarrow> or_num x d \<noteq> NaN"
  by (simp add: or_num_def truthy_num_def)

lemma times_finite_D: "is_finite (x * y) \<Longrightarrow> is_finite x \<and> is_finite y"
  by (cases x; cases y) (simp_all split: if_splits)

lemma plus_finite_D: "is_finite (x + y) \<Longrightarrow> is_finite x \<and> is_finite y"
  by (cases x; cases y) simp_all

lemma plus_Fin_not_NaN: "x \<noteq> NaN \<Longrightarrow> x + Fin y \<noteq> NaN"
  by (cases x) simp_all

lemma times_Fin_not_NaN: "x \<noteq> NaN \<Longrightarrow> c \<noteq> 0 \<Longrightarrow> x * Fin c \<noteq> NaN"
  by (cases x) simp_all

lemma double_0_05: "double (5 / 100) = Fin (3602879701896397 / 72057594037927936)"
  by (simp add: double_eval [where e = "- 5"] rne_def)

lemma double_0_18: "double (18 / 100) = Fin (3242591731706757 / 18014398509481984)"
  by (simp add: double_eval [where e = "- 3"] rne_def)

lemma gst_not_NaN: "x \<noteq> NaN \<Longrightarrow> x * double (5 / 100) \<noteq> NaN"
  unfolding double_0_05 by (rule times_Fin_not_NaN) simp_all

lemma deadheadCharges_cases:
  "deadheadCharges (calculateDeadheadCharges la lg r zs) = Fin 0 \<or>
   deadheadCharges (calculateDeadheadCharges la lg r zs) =
     calculateDistance \<lparr> latitude = la, longitude = lg \<rparr> HOSUR_BUS_STAND / Fin 2 * r"
  by (simp add: calculateDeadheadCharges_def Let_def split: option.splits)

text \<open>
  Claim C1. A regular booking whose fare matrix row is found, with finite resolved base
  fare \<open>b\<close>, rate per kilometre \<open>k\<close>, surge multiplier \<open>s\<close>, platform fee \<open>p\<close> and a
  finite distance \<open>d\<close>, in the arithmetic of doubles, the surge charge being finite (no
  charge overflows): the distance fare is \<open>df = max(0, d - 4) * k\<close> (0 when \<open>d \<le> 4\<close>), the
  surge charge is \<open>sg = (b + df + dh) * (s - 1)\<close> with \<open>dh\<close> the deadhead charge, there
  is no time fare, the GST on charges is 0.05 times \<open>b + df + dh + sg\<close>, the GST on the
  platform fee is 0.18 times \<open>p\<close>, and the total is the sum of the seven components
  rounded to the nearest integer, a half upwards.
\<close>

theorem regular_fare:
  assumes "\<not> qerror (fare_matrix st ''regular'' vehicleType)"
    and "qdata (fare_matrix st ''regular'' vehicleType) = Some (fm # others)"
    and "or_num (Number (fm_base_fare fm)) (Fin 0) = Fin b"
    and "or_num (Number (fm_per_km_rate fm)) (Fin 0) = Fin k"
    and "or_num (Number (fm_surge_multiplier fm)) (Fin 1) = Fin s"
    and "platformFeeOf (fm_platform_fee fm) = Fin p"
    and "df = Math_max (Fin 0) (Fin d - Fin 4) * Fin k"
    and "dh = or_num (deadheadCharges (calculateDeadheadCharges dLat dLng (Fin k) zs)) (Fin 0)"
    and "sg = (Fin b + df + dh) * (Fin s - Fin 1)"
    and "is_finite sg"
  shows "\<exists>fb. calculateRegularFare st vehicleType (Fin d) mins pLat pLng dLat dLng zs = Inr fb \<and>
           base_fare fb = JNum (Fin b) \<and>
           per_km_rate (details fb) = JNum (Fin k) \<and>
           surge_multiplier (details fb) = Some (Fin s) \<and>
           distance_fare fb = df \<and>
           (d \<le> 4 \<longrightarrow> distance_fare fb = Fin 0) \<and>
           deadhead_charges fb = dh \<and>
           surge_charges fb = sg \<and>
           time_fare fb = Fin 0 \<and>
           platform_fee fb = Fin p \<and>
           gst_on_charges fb = (Fin b + df + dh + sg) * double (5 / 100) \<and>
           gst_on_platform_fee fb = Fin p * double (18 / 100) \<and>
           total_fare fb =
             Math_round (Fin b + df + dh + sg + Fin p + gst_on_charges fb +
                         gst_on_platform_fee fb)"
proof -
  have fare: "calculateRegularFare st vehicleType (Fin d) mins pLat pLng dLat dLng zs =
      Inr (regularFareOf fm vehicleType (Fin d) mins dLat dLng zs)"
    using assms(1,2) by (simp add: calculateRegularFare_def)
  have "is_finite (Fin b + df + dh)"
    using assms(10) unfolding assms(9) by (blast dest: times_finite_D)
  then have fin: "is_finite df" "is_finite dh"
    by (blast dest: plus_finite_D)+
  then obtain x y z where v: "df = Fin x" "dh = Fin y" "sg = Fin z"
    using assms(10) by (meson is_finite_Fin)
  have nn: "Fin b + Fin x + Fin y + Fin z \<noteq> NaN"
    by (intro plus_Fin_not_NaN) simp
  have g: "(Fin b + Fin x + Fin y + Fin z) * double (5 / 100) \<noteq> NaN"
    using nn by (rule gst_not_NaN)
  have gp: "Fin p * double (18 / 100) \<noteq> NaN"
    unfolding double_0_18 by simp
  have zero: "d \<le> 4 \<longrightarrow> df = Fin 0"
    unfolding assms(7) by (simp add: Math_max_zero_minus)
  have e: "Math_max (Fin 0) (Fin d - Fin 4) * Fin k = Fin x"
    "or_num (deadheadCharges (calculateDeadheadCharges dLat dLng (Fin k) zs)) (Fin 0) = Fin y"
    "(Fin b + Fin x + Fin y) * (Fin s - Fin 1) = Fin z"
    using assms(7,8,9) v by simp_all
  have fields: "base_fare (regularFareOf fm vehicleType (Fin d) mins dLat dLng zs) = JNum (Fin b)"
    "per_km_rate (details (regularFareOf fm vehicleType (Fin d) mins dLat dLng zs)) = JNum (Fin k)"
    "surge_multiplier (details (regularFareOf fm vehicleType (Fin d) mins dLat dLng zs)) = Some (Fin s)"
    "distance_fare (regularFareOf fm vehicleType (Fin d) mins dLat dLng zs) = Fin x"
    "deadhead_charges (regularFareOf fm vehicleType (Fin d) mins dLat dLng zs) = Fin y"
    "surge_charges (regularFareOf fm vehicleType (Fin d) mins dLat dLng zs) = Fin z"
    "time_fare (regularFareOf fm vehicleType (Fin d) mins dLat dLng zs) = Fin 0"
    "platform_fee (regularFareOf fm vehicleType (Fin d) mins dLat dLng zs) = Fin p"
    "gst_on_charges (regularFareOf fm vehicleType (Fin d) mins dLat dLng zs) =
       (Fin b + Fin x + Fin y + Fin z) * double (5 / 100)"
    "gst_on_platform_fee (regularFareOf fm vehicleType (Fin d) mins dLat dLng zs) =
       Fin p * double (18 / 100)"
    "total_fare (regularFareOf fm vehicleType (Fin d) mins dLat dLng zs) =
       Math_round (Fin b + Fin x + Fin y + Fin z + Fin p +
                   (Fin b + Fin x + Fin y + Fin z) * double (5 / 100) +
                   Fin p * double (18 / 100))"
    unfolding regularFareOf_def Let_def assms(3-6) e
    using g gp
    by (simp_all add: isNaN_def details0_def del: plus_jsnum.simps times_jsnum.simps)
  show ?thesis
    unfolding fare using zero
    by (intro exI [of _ "regularFareOf fm vehicleType (Fin d) mins dLat dLng zs"])
       (simp add: fields v del: plus_jsnum.simps times_jsnum.simps)
qed

lemma example_matrix_row:
  "\<not> qerror (fare_matrix exampleStore ''regular'' v)"
  "qdata (fare_matrix exampleStore ''regular'' v) = Some [exampleMatrix]"
  by (simp_all add: exampleStore_def rows_def)

lemma example_matrix_figures:
  "or_num (Number (fm_base_fare exampleMatrix)) (Fin 0) = Fin 50"
  "or_num (Number (fm_per_km_rate exampleMatrix)) (Fin 0) = Fin 12"
  "or_num (Number (fm_surge_multiplier exampleMatrix)) (Fin 1) = Fin (3 / 2)"
  "platformFeeOf (fm_platform_fee exampleMatrix) = Fin 10"
  by (simp_all add: exampleMatrix_def num_def or_num_def truthy_num_def platformFeeOf_def
        isNaN_def)

lemma plain_matrix_row:
  "\<not> qerror (fare_matrix plainStore ''regular'' v)"
  "qdata (fare_matrix plainStore ''regular'' v) = Some [plainMatrix]"
  by (simp_all add: plainStore_def rows_def)

lemma plain_matrix_figures:
  "or_num (Number (fm_base_fare plainMatrix)) (Fin 0) = Fin 50"
  "or_num (Number (fm_per_km_rate plainMatrix)) (Fin 0) = Fin 10"
  "or_num (Number (fm_surge_multiplier plainMatrix)) (Fin 1) = Fin 1"
  "platformFeeOf (fm_platform_fee plainMatrix) = Fin 10"
  by (simp_all add: plainMatrix_def num_def or_num_def truthy_num_def platformFeeOf_def
        isNaN_def)

lemma example_zone_names:
  "toLowerCase ''Hosur Inner Ring'' = ''hosur inner ring''"
  "toLowerCase ''Hosur Outer Ring'' = ''hosur outer ring''"
  by code_simp+

lemma example_find_zones:
  "findZone ''inner ring'' (Some exampleZones) = Some innerRing"
  "findZone ''outer ring'' (Some exampleZones) = Some outerRing"
  by (simp_all add: findZone_def exampleZones_def innerRing_def outerRing_def
        example_zone_names)

lemma example_zone_figures:
  "parseFloatOr (radius_km innerRing) (Fin 0) = Fin 5"
  "parseFloatOr (center_latitude innerRing) (Fin 0) = Fin centerLat"
  "parseFloatOr (center_longitude innerRing) (Fin 0) = Fin centerLng"
  "parseFloatOr (radius_km outerRing) (Fin 0) = Fin 15"
  "parseFloatOr (center_latitude outerRing) (Fin 0) = Fin centerLat"
  "parseFloatOr (center_longitude outerRing) (Fin 0) = Fin centerLng"
  by (simp_all add: innerRing_def outerRing_def num_def)

lemma example_deadhead_at_center:
  "calculateDeadheadCharges (Fin centerLat) (Fin centerLng) r (Some exampleZones) =
     \<lparr> deadheadCharges = Fin 0, zoneDetected = ''Hosur Inner Ring'', isInnerZone = True \<rparr>"
  by (simp add: calculateDeadheadCharges_def example_find_zones example_zone_figures Let_def
        calculateDistance_Fin haversineKm_same)
    (simp add: innerRing_def)

lemma double_16_4: "double (164 / 10) = Fin (2308094809027379 / 140737488355328)"
  by (simp add: double_eval [where e = 4] rne_def)

theorem regular_fare_witness:
  "\<not> qerror (fare_matrix exampleStore ''regular'' ''sedan'') \<and>
   qdata (fare_matrix exampleStore ''regular'' ''sedan'') = Some [exampleMatrix] \<and>
   (\<exists>fb. calculateRegularFare exampleStore ''sedan'' (Fin 10) (Fin 25) (Fin 12.75) (Fin 77.75)
            (Fin centerLat) (Fin centerLng) (Some exampleZones) = Inr fb \<and>
      base_fare fb = num 50 \<and> distance_fare fb = Fin 72 \<and> deadhead_charges fb = Fin 0 \<and>
      surge_charges fb = Fin 61 \<and> platform_fee fb = Fin 10 \<and>
      gst_on_charges fb = Fin (5150992073805005 / 562949953421312) \<and>
      gst_on_platform_fee fb = Fin (2026619832316723 / 1125899906842624) \<and>
      total_fare fb = Fin 204) \<and>
   (\<exists>fb. calculateRegularFare exampleStore ''sedan'' (Fin 3) (Fin 25) (Fin 12.75) (Fin 77.75)
            (Fin centerLat) (Fin centerLng) (Some exampleZones) = Inr fb \<and>
      distance_fare fb = Fin 0 \<and> surge_charges fb = Fin 25 \<and> total_fare fb = Fin 91) \<and>
   (\<exists>fb. calculateRegularFare plainStore ''sedan'' (double (164 / 10)) (Fin 25) (Fin 12.75)
            (Fin 77.75) (Fin centerLat) (Fin centerLng) (Some exampleZones) = Inr fb \<and>
      distance_fare fb = Fin (8725724278030335 / 70368744177664) \<and>
      surge_charges fb = Fin 0 \<and> total_fare fb = Fin 195)"
proof -
  have dh: "Fin 0 = or_num (deadheadCharges (calculateDeadheadCharges (Fin centerLat)
      (Fin centerLng) r (Some exampleZones))) (Fin 0)" for r
    unfolding example_deadhead_at_center by (simp add: or_num_simps)
  have 1: "\<exists>fb. calculateRegularFare exampleStore ''sedan'' (Fin 10) (Fin 25) (Fin 12.75) (Fin 77.75)
            (Fin centerLat) (Fin centerLng) (Some exampleZones) = Inr fb \<and>
      base_fare fb = num 50 \<and> distance_fare fb = Fin 72 \<and> deadhead_charges fb = Fin 0 \<and>
      surge_charges fb = Fin 61 \<and> platform_fee fb = Fin 10 \<and>
      gst_on_charges fb = Fin (5150992073805005 / 562949953421312) \<and>
      gst_on_platform_fee fb = Fin (2026619832316723 / 1125899906842624) \<and>
      total_fare fb = Fin 204"
  proof -
    have e: "Fin 72 = Math_max (Fin 0) (Fin 10 - Fin 4) * Fin 12"
      "Fin 61 = (Fin 50 + Fin 72 + Fin 0) * (Fin (3 / 2) - Fin 1)"
      "is_finite (Fin 61)"
      by (simp_all add: Math_max_zero_minus minus_Fin double_at rne_def)
    show ?thesis
      using regular_fare [where vehicleType = "''sedan''" and d = 10 and mins = "Fin 25"
          and pLat = "Fin 12.75" and pLng = "Fin 77.75" and dLat = "Fin centerLat"
          and dLng = "Fin centerLng" and zs = "Some exampleZones",
          OF example_matrix_row example_matrix_figures e(1) dh e(2,3)]
      by (auto simp add: num_def double_at rne_def)
  qed
  have 2: "\<exists>fb. calculateRegularFare exampleStore ''sedan'' (Fin 3) (Fin 25) (Fin 12.75) (Fin 77.75)
            (Fin centerLat) (Fin centerLng) (Some exampleZones) = Inr fb \<and>
      distance_fare fb = Fin 0 \<and> surge_charges fb = Fin 25 \<and> total_fare fb = Fin 91"
  proof -
    have e: "Fin 0 = Math_max (Fin 0) (Fin 3 - Fin 4) * Fin 12"
      "Fin 25 = (Fin 50 + Fin 0 + Fin 0) * (Fin (3 / 2) - Fin 1)"
      "is_finite (Fin 25)"
      by (simp_all add: Math_max_zero_minus minus_Fin double_at rne_def)
    show ?thesis
      using regular_fare [where vehicleType = "''sedan''" and d = 3 and mins = "Fin 25"
          and pLat = "Fin 12.75" and pLng = "Fin 77.75" and dLat = "Fin centerLat"
          and dLng = "Fin centerLng" and zs = "Some exampleZones",
          OF example_matrix_row example_matrix_figures e(1) dh e(2,3)]
      by (auto simp add: double_at rne_def)
  qed
  have 3: "\<exists>fb. calculateRegularFare plainStore ''sedan'' (double (164 / 10)) (Fin 25) (Fin 12.75)
            (Fin 77.75) (Fin centerLat) (Fin centerLng) (Some exampleZones) = Inr fb \<and>
      distance_fare fb = Fin (8725724278030335 / 70368744177664) \<and>
      surge_charges fb = Fin 0 \<and> total_fare fb = Fin 195"
  proof -
    have e: "Fin (8725724278030335 / 70368744177664) =
        Math_max (Fin 0) (Fin (2308094809027379 / 140737488355328) - Fin 4) * Fin 10"
      "Fin 0 = (Fin 50 + Fin (8725724278030335 / 70368744177664) + Fin 0) * (Fin 1 - Fin 1)"
      "is_finite (Fin 0)"
      by (simp_all add: Math_max_zero_minus minus_Fin double_at rne_def)
    show ?thesis
      unfolding double_16_4
      using regular_fare [where vehicleType = "''sedan''"
          and d = "2308094809027379 / 140737488355328" and mins = "Fin 25"
          and pLat = "Fin 12.75" and pLng = "Fin 77.75" and dLat = "Fin centerLat"
          and dLng = "Fin centerLng" and zs = "Some exampleZones",
          OF plain_matrix_row plain_matrix_figures e(1) dh e(2,3)]
      by (auto simp add: double_at rne_def)
  qed
  show ?thesis
    using 1 2 3 example_matrix_row by blast
qed

section \<open>Regular fare: the deadhead charge\<close>

lemma regular_deadhead_field:
  "deadhead_charges (regularFareOf fm vehicleType km mins dLat dLng zs) =
     or_num (deadheadCharges (calculateDeadheadCharges dLat dLng
        (or_num (Number (fm_per_km_rate fm)) (Fin 0)) zs)) (Fin 0)"
  by (simp add: regularFareOf_def Let_def isNaN_def)

lemma deadhead_charge_value:
  "or_num (Fin (haversineKm la lg la' lg') / Fin 2 * Fin k) (Fin 0) =
     Fin (haversineKm la lg la' lg') / Fin 2 * Fin k"
  unfolding half_distance by (rule or_num_zero) simp

text \<open>
  Claim C3. A regular booking whose fare matrix row is found, with finite rate \<open>k\<close> and a
  drop point of finite coordinates. When the inner or the outer zone is missing, the fare
  is still returned and the deadhead charge is 0. When both are found, with finite radii
  and centres, the deadhead charge is half the Haversine distance from the drop point to
  the fixed point (the doubles 12.7401984, 77.824) times \<open>k\<close>, in the arithmetic of
  doubles, exactly when the distance to the inner centre exceeds the inner radius and the
  distance to the outer centre is at most the outer radius, and 0 in every other case.
\<close>

theorem regular_deadhead:
  assumes "\<not> qerror (fare_matrix st ''regular'' vehicleType)"
    and "qdata (fare_matrix st ''regular'' vehicleType) = Some (fm # others)"
    and "or_num (Number (fm_per_km_rate fm)) (Fin 0) = Fin k"
  shows "\<exists>fb. calculateRegularFare st vehicleType km mins pLat pLng (Fin la) (Fin lg) zs = Inr fb \<and>
           (findZone ''inner ring'' zs = None \<or> findZone ''outer ring'' zs = None \<longrightarrow>
              deadhead_charges fb = Fin 0) \<and>
           (\<forall>innerZone outerZone ri ro ila ilg ola olg.
              findZone ''inner ring'' zs = Some innerZone \<and>
              findZone ''outer ring'' zs = Some outerZone \<and>
              parseFloatOr (radius_km innerZone) (Fin 0) = Fin ri \<and>
              parseFloatOr (center_latitude innerZone) (Fin 0) = Fin ila \<and>
              parseFloatOr (center_longitude innerZone) (Fin 0) = Fin ilg \<and>
              parseFloatOr (radius_km outerZone) (Fin 0) = Fin ro \<and>
              parseFloatOr (center_latitude outerZone) (Fin 0) = Fin ola \<and>
              parseFloatOr (center_longitude outerZone) (Fin 0) = Fin olg \<longrightarrow>
              deadhead_charges fb =
                (if ri < haversineKm la lg ila ilg \<and> haversineKm la lg ola olg \<le> ro
                 then Fin (haversineKm la lg (nearest 12.7401984) (nearest 77.824)) / Fin 2 * Fin k
                 else Fin 0))"
proof -
  have fare: "calculateRegularFare st vehicleType km mins pLat pLng (Fin la) (Fin lg) zs =
      Inr (regularFareOf fm vehicleType km mins (Fin la) (Fin lg) zs)"
    using assms(1,2) by (simp add: calculateRegularFare_def)
  have dh: "deadhead_charges (regularFareOf fm vehicleType km mins (Fin la) (Fin lg) zs) =
      or_num (deadheadCharges (calculateDeadheadCharges (Fin la) (Fin lg) (Fin k) zs)) (Fin 0)"
    by (simp only: regular_deadhead_field assms(3))
  have none: "findZone ''inner ring'' zs = None \<or> findZone ''outer ring'' zs = None \<longrightarrow>
      deadhead_charges (regularFareOf fm vehicleType km mins (Fin la) (Fin lg) zs) = Fin 0"
    unfolding dh
    by (auto simp add: calculateDeadheadCharges_def or_num_simps split: option.splits)
  have some: "deadhead_charges (regularFareOf fm vehicleType km mins (Fin la) (Fin lg) zs) =
                (if ri < haversineKm la lg ila ilg \<and> haversineKm la lg ola olg \<le> ro
                 then Fin (haversineKm la lg (nearest 12.7401984) (nearest 77.824)) / Fin 2 * Fin k
                 else Fin 0)"
    if "findZone ''inner ring'' zs = Some innerZone"
      "findZone ''outer ring'' zs = Some outerZone"
      "parseFloatOr (radius_km innerZone) (Fin 0) = Fin ri"
      "parseFloatOr (center_latitude innerZone) (Fin 0) = Fin ila"
      "parseFloatOr (center_longitude innerZone) (Fin 0) = Fin ilg"
      "parseFloatOr (radius_km outerZone) (Fin 0) = Fin ro"
      "parseFloatOr (center_latitude outerZone) (Fin 0) = Fin ola"
      "parseFloatOr (center_longitude outerZone) (Fin 0) = Fin olg"
    for innerZone outerZone ri ro ila ilg ola olg
    unfolding dh calculateDeadheadCharges_def HOSUR_BUS_STAND_Fin using that
    by (simp add: Let_def calculateDistance_Fin or_num_simps not_le not_less
          deadhead_charge_value del: divide_jsnum.simps times_jsnum.simps)
  have all: "\<forall>innerZone outerZone ri ro ila ilg ola olg.
              findZone ''inner ring'' zs = Some innerZone \<and>
              findZone ''outer ring'' zs = Some outerZone \<and>
              parseFloatOr (radius_km innerZone) (Fin 0) = Fin ri \<and>
              parseFloatOr (center_latitude innerZone) (Fin 0) = Fin ila \<and>
              parseFloatOr (center_longitude innerZone) (Fin 0) = Fin ilg \<and>
              parseFloatOr (radius_km outerZone) (Fin 0) = Fin ro \<and>
              parseFloatOr (center_latitude outerZone) (Fin 0) = Fin ola \<and>
              parseFloatOr (center_longitude outerZone) (Fin 0) = Fin olg \<longrightarrow>
              deadhead_charges (regularFareOf fm vehicleType km mins (Fin la) (Fin lg) zs) =
                (if ri < haversineKm la lg ila ilg \<and> haversineKm la lg ola olg \<le> ro
                 then Fin (haversineKm la lg (nearest 12.7401984) (nearest 77.824)) / Fin 2 * Fin k
                 else Fin 0)"
    by (intro allI impI, elim conjE, rule some)
  show ?thesis
    unfolding fare
    by (intro exI [of _ "regularFareOf fm vehicleType km mins (Fin la) (Fin lg) zs"] conjI refl
          none all)
qed

lemma between_rings_distance:
  "haversineKm (centerLat + 3 / 32) centerLng centerLat centerLng = 6371 * (3 / 32 * pi / 180)"
  using haversineKm_meridian_degrees [where p = "centerLat + 3 / 32" and q = centerLat
      and lo = centerLng]
  by simp

lemma between_rings_bounds:
  "5 < haversineKm (centerLat + 3 / 32) centerLng centerLat centerLng"
  "haversineKm (centerLat + 3 / 32) centerLng centerLat centerLng \<le> 15"
  unfolding between_rings_distance using pi_ge_two pi_less_4 by simp_all

lemma example_outer_missing: "findZone ''outer ring'' (Some [innerRing]) = None"
  by (simp add: findZone_def innerRing_def example_zone_names)

theorem regular_deadhead_witness:
  "\<not> qerror (fare_matrix exampleStore ''regular'' ''sedan'') \<and>
   qdata (fare_matrix exampleStore ''regular'' ''sedan'') = Some [exampleMatrix] \<and>
   findZone ''outer ring'' (Some [innerRing]) = None \<and>
   (\<exists>fb. calculateRegularFare exampleStore ''sedan'' (Fin 10) (Fin 25) (Fin 12.75) (Fin 77.75)
            (Fin (centerLat + 3 / 32)) (Fin centerLng) (Some [innerRing]) = Inr fb \<and>
      deadhead_charges fb = Fin 0) \<and>
   findZone ''inner ring'' (Some exampleZones) = Some innerRing \<and>
   findZone ''outer ring'' (Some exampleZones) = Some outerRing \<and>
   5 < haversineKm (centerLat + 3 / 32) centerLng centerLat centerLng \<and>
   haversineKm (centerLat + 3 / 32) centerLng centerLat centerLng \<le> 15 \<and>
   (\<exists>fb. calculateRegularFare exampleStore ''sedan'' (Fin 10) (Fin 25) (Fin 12.75) (Fin 77.75)
            (Fin (centerLat + 3 / 32)) (Fin centerLng) (Some exampleZones) = Inr fb \<and>
      deadhead_charges fb =
        Fin (haversineKm (centerLat + 3 / 32) centerLng centerLat centerLng) / Fin 2 * Fin 12) \<and>
   (\<exists>fb. calculateRegularFare exampleStore ''sedan'' (Fin 10) (Fin 25) (Fin 12.75) (Fin 77.75)
            (Fin centerLat) (Fin centerLng) (Some exampleZones) = Inr fb \<and>
      deadhead_charges fb = Fin 0)"
proof -
  have 1: "\<exists>fb. calculateRegularFare exampleStore ''sedan'' (Fin 10) (Fin 25) (Fin 12.75)
      (Fin 77.75) (Fin (centerLat + 3 / 32)) (Fin centerLng) (Some [innerRing]) = Inr fb \<and>
      deadhead_charges fb = Fin 0"
    using regular_deadhead [where vehicleType = "''sedan''" and km = "Fin 10" and mins = "Fin 25"
        and pLat = "Fin 12.75" and pLng = "Fin 77.75" and la = "centerLat + 3 / 32"
        and lg = centerLng
        and zs = "Some [innerRing]", OF example_matrix_row example_matrix_figures(2)]
      example_outer_missing
    by blast
  have 2: "\<exists>fb. calculateRegularFare exampleStore ''sedan'' (Fin 10) (Fin 25) (Fin 12.75)
      (Fin 77.75) (Fin (centerLat + 3 / 32)) (Fin centerLng) (Some exampleZones) = Inr fb \<and>
      deadhead_charges fb =
        Fin (haversineKm (centerLat + 3 / 32) centerLng centerLat centerLng) / Fin 2 * Fin 12"
  proof -
    obtain fb where h:
      "calculateRegularFare exampleStore ''sedan'' (Fin 10) (Fin 25) (Fin 12.75)
         (Fin 77.75) (Fin (centerLat + 3 / 32)) (Fin centerLng) (Some exampleZones) = Inr fb"
      "deadhead_charges fb =
         (if 5 < haversineKm (centerLat + 3 / 32) centerLng centerLat centerLng \<and>
             haversineKm (centerLat + 3 / 32) centerLng centerLat centerLng \<le> 15
          then Fin (haversineKm (centerLat + 3 / 32) centerLng (nearest 12.7401984)
                 (nearest 77.824)) / Fin 2 * Fin 12
          else Fin 0)"
      using regular_deadhead [where vehicleType = "''sedan''" and km = "Fin 10" and mins = "Fin 25"
          and pLat = "Fin 12.75" and pLng = "Fin 77.75" and la = "centerLat + 3 / 32"
          and lg = centerLng
          and zs = "Some exampleZones", OF example_matrix_row example_matrix_figures(2)]
        example_find_zones example_zone_figures
      by blast
    show ?thesis
      using h between_rings_bounds unfolding centerLat_def centerLng_def by auto
  qed
  have 3: "\<exists>fb. calculateRegularFare exampleStore ''sedan'' (Fin 10) (Fin 25) (Fin 12.75)
      (Fin 77.75) (Fin centerLat) (Fin centerLng) (Some exampleZones) = Inr fb \<and>
      deadhead_charges fb = Fin 0"
  proof -
    obtain fb where h:
      "calculateRegularFare exampleStore ''sedan'' (Fin 10) (Fin 25) (Fin 12.75)
         (Fin 77.75) (Fin centerLat) (Fin centerLng) (Some exampleZones) = Inr fb"
      "deadhead_charges fb =
         (if 5 < haversineKm centerLat centerLng centerLat centerLng \<and>
             haversineKm centerLat centerLng centerLat centerLng \<le> 15
          then Fin (haversineKm centerLat centerLng (nearest 12.7401984)
                 (nearest 77.824)) / Fin 2 * Fin 12
          else Fin 0)"
      using regular_deadhead [where vehicleType = "''sedan''" and km = "Fin 10" and mins = "Fin 25"
          and pLat = "Fin 12.75" and pLng = "Fin 77.75" and la = centerLat and lg = centerLng
          and zs = "Some exampleZones", OF example_matrix_row example_matrix_figures(2)]
        example_find_zones example_zone_figures
      by blast
    show ?thesis
      using h unfolding haversineKm_same by auto
  qed
  show ?thesis
    using 1 2 3 example_matrix_row example_outer_missing example_find_zones
      between_rings_bounds
    by blast
qed

end
